theory Spec2Isabelle
  imports Main
begin

section \<open>Go values used by the remote control\<close>

text \<open>
  The program is the package \<open>kodicommunicator\<close>: a table of commands
  (\<open>CommandMap\<close>), the parameter builders stored in it, and the dispatcher
  \<open>ExecuteCommand\<close> that serialises one JSON-RPC request and posts it
  \<open>repeatCount\<close> times. Go strings are byte strings, as \<^typ>\<open>string\<close> is.

  Go's \<open>error\<close> values that occur are \<open>*strconv.NumError\<close> (fields \<open>Func\<close>,
  \<open>Num\<close>, \<open>Err\<close>), the \<open>errors.New\<close> string errors, and errors of the
  HTTP and JSON libraries, which the program only passes on.
\<close>

datatype num_err = ErrSyntax | ErrRange

datatype go_error =
    NumError string string num_err
  | ErrorString string
  | LibraryError string

text \<open>A run-time panic ends the call; it is not an \<open>error\<close> value.\<close>

datatype panic = NilPointerDereference | IndexOutOfRange

datatype 'a outcome = Panicked panic | Failed go_error | Returned 'a

subsection \<open>\<open>strconv.Atoi\<close> and \<open>strings.Split\<close>\<close>

text \<open>
  \<open>strconv.Atoi\<close> of the Go library on a 64-bit platform: strings of 1 to 18
  bytes take the fast path (an optional sign, then decimal digits, accumulated
  without overflow check, which 18 digits cannot reach); every other string goes
  through \<open>ParseInt(s, 10, 0)\<close>, whose unsigned loop reports a syntax error at
  the first non-digit and a range error at the first overflow of 64 bits, whichever
  comes first from the left.
\<close>

definition byteDigit :: "char \<Rightarrow> nat" where
  \<comment> \<open>\<open>ch -= '0'\<close> on a byte: wraps around below \<open>'0'\<close>\<close>
  "byteDigit c = (of_char c + 256 - 48) mod 256"

fun atoiFast :: "string \<Rightarrow> int \<Rightarrow> int option" where
  "atoiFast [] n = Some n"
| "atoiFast (c # cs) n =
     (if byteDigit c > 9 then None else atoiFast cs (n * 10 + int (byteDigit c)))"

definition maxUint64 :: nat where
  "maxUint64 = 2 ^ 64 - 1"

fun parseUintLoop :: "string \<Rightarrow> nat \<Rightarrow> num_err + nat" where
  "parseUintLoop [] n = Inr n"
| "parseUintLoop (c # cs) n =
     (if byteDigit c > 9 then Inl ErrSyntax
      else if n \<ge> maxUint64 div 10 + 1 then Inl ErrRange
      else if n * 10 + byteDigit c > maxUint64 then Inl ErrRange
      else parseUintLoop cs (n * 10 + byteDigit c))"

definition ParseUint :: "string \<Rightarrow> num_err + nat" where
  "ParseUint s = (if s = [] then Inl ErrSyntax else parseUintLoop s 0)"

definition ParseInt :: "string \<Rightarrow> num_err + int" where
  "ParseInt s =
     (if s = [] then Inl ErrSyntax
      else
        let neg = (hd s = CHR ''-'');
            body = (if hd s = CHR ''+'' \<or> hd s = CHR ''-'' then tl s else s)
        in case ParseUint body of
             Inl ErrSyntax \<Rightarrow> Inl ErrSyntax
           | Inl ErrRange \<Rightarrow> Inl ErrRange
           | Inr un \<Rightarrow>
               if \<not> neg \<and> un \<ge> 2 ^ 63 then Inl ErrRange
               else if neg \<and> un > 2 ^ 63 then Inl ErrRange
               else Inr (if neg then - int un else int un))"

definition Atoi :: "string \<Rightarrow> go_error + int" where
  "Atoi s =
     (if 0 < length s \<and> length s < 19 then
        let body = (if hd s = CHR ''-'' \<or> hd s = CHR ''+'' then tl s else s)
        in if body = [] then Inl (NumError ''Atoi'' s ErrSyntax)
           else case atoiFast body 0 of
                  None \<Rightarrow> Inl (NumError ''Atoi'' s ErrSyntax)
                | Some n \<Rightarrow> Inr (if hd s = CHR ''-'' then - n else n)
      else case ParseInt s of
             Inl e \<Rightarrow> Inl (NumError ''Atoi'' s e)
           | Inr n \<Rightarrow> Inr n)"

text \<open>
  \<open>strings.Split(s, sep)\<close> for a one-byte separator: the pieces between the
  occurrences of \<open>sep\<close>, so one piece more than there are separators (the empty
  string gives one empty piece).
\<close>

fun Split :: "string \<Rightarrow> char \<Rightarrow> string list" where
  "Split [] sep = [[]]"
| "Split (c # cs) sep =
     (if c = sep then [] # Split cs sep
      else (case Split cs sep of
              [] \<Rightarrow> [[c]]
            | p # ps \<Rightarrow> (c # p) # ps))"

section \<open>Parameter builders\<close>

text \<open>
  \<open>parseTimeNumber\<close> parses a number and makes sure that it is between 0 and 59.
\<close>

definition parseTimeNumber :: "string \<Rightarrow> go_error + int" where
  "parseTimeNumber number =
     (case Atoi number of
        Inl err \<Rightarrow> Inl err
      | Inr num \<Rightarrow>
          if num > 59 \<or> num < 0
          then Inl (ErrorString (''A time-number needs to be between 0 and 59, but was '' @ number))
          else Inr num)"

text \<open>
  A parameter payload is a Go \<open>map[string]interface{}\<close>. The values stored in
  it are an \<open>int\<close>, a \<open>string\<close>, or the \<open>map[string]int\<close> of a time. A
  \<open>nil\<close> map and an empty map both have length 0 and are the empty map here.
\<close>

datatype pvalue = IntVal int | StrVal string | IntMapVal "string \<Rightarrow> int option"

type_synonym payload = "string \<Rightarrow> pvalue option"

text \<open>The builder of \<open>play\<close>, \<open>pause\<close> and \<open>stop\<close>.\<close>

definition playerParameterMap :: "string list \<Rightarrow> payload outcome" where
  "playerParameterMap params = Returned [''playerid'' \<mapsto> IntVal 1]"

definition muteParameterMap :: "string list \<Rightarrow> payload outcome" where
  "muteParameterMap params = Returned [''mute'' \<mapsto> StrVal ''toggle'']"

text \<open>
  The builder of \<open>seek\<close>. \<open>seekMinutesSeconds\<close> is the part of the function
  from \<open>if len(hms) == 2\<close> on, which runs on the pieces left after the hours.
\<close>

definition seekMinutesSeconds :: "(string \<Rightarrow> int option) \<Rightarrow> string list \<Rightarrow> payload outcome" where
  \<open>seekMinutesSeconds timeMap hms =
     (if length hms = 2 then
        (case parseTimeNumber (hms ! 0) of
           Inl err \<Rightarrow> Failed err
         | Inr minutes \<Rightarrow>
             (case parseTimeNumber (hms ! 1) of
                Inl err \<Rightarrow> Failed err
              | Inr seconds \<Rightarrow>
                  Returned [''playerid'' \<mapsto> IntVal 1,
                            ''value'' \<mapsto> IntMapVal (timeMap(''minutes'' \<mapsto> minutes, ''seconds'' \<mapsto> seconds))]))
      else Failed (ErrorString ''Illegal parameter. See "help seek" for usage information.''))\<close>

definition seekParameterMap :: "string list \<Rightarrow> payload outcome" where
  \<open>seekParameterMap params =
     (if length params < 1
      then Failed (ErrorString ''Not enough parameters. See "help seek" for usage information.'')
      else
        let val = (if params ! 0 = ''+'' then ''smallforward''
                   else if params ! 0 = ''++'' then ''bigforward''
                   else if params ! 0 = ''-'' then ''smallbackward''
                   else if params ! 0 = ''--'' then ''bigbackward''
                   else [])
        in if length val > 0
           then Returned [''playerid'' \<mapsto> IntVal 1, ''value'' \<mapsto> StrVal val]
           else
             let timeMap = [''hours'' \<mapsto> 0, ''minutes'' \<mapsto> 0,
                            ''seconds'' \<mapsto> 0, ''milliseconds'' \<mapsto> 0];
                 hms = Split (params ! (length params - 1)) CHR '':''
             in if length hms = 3 then
                  (case parseTimeNumber (hms ! 0) of
                     Inl err \<Rightarrow> Failed err
                   | Inr hours \<Rightarrow> seekMinutesSeconds (timeMap(''hours'' \<mapsto> hours)) (drop 1 hms))
                else seekMinutesSeconds timeMap hms)\<close>

text \<open>The builder of \<open>speed\<close> reads \<open>params[0]\<close> without a length check.\<close>

definition speedParameterMap :: "string list \<Rightarrow> payload outcome" where
  "speedParameterMap params =
     (if length params = 0 then Panicked IndexOutOfRange
      else Returned [''playerid'' \<mapsto> IntVal 1, ''speed'' \<mapsto> StrVal (params ! 0)])"

text \<open>The builder of every other command returns the empty map.\<close>

definition noParameterMap :: "string list \<Rightarrow> payload outcome" where
  "noParameterMap params = Returned Map.empty"

section \<open>The command table\<close>

record Command =
  CliName :: string
  KodiName :: string
  Description :: string
  ParametersDescription :: "string \<Rightarrow> string option"
  CreateParameterMap :: "string list \<Rightarrow> payload outcome"

definition mkCommand ::
  "string \<Rightarrow> string \<Rightarrow> string \<Rightarrow> (string \<Rightarrow> string option) \<Rightarrow> (string list \<Rightarrow> payload outcome) \<Rightarrow> Command" where
  "mkCommand cli kodi descr pdescr build =
     \<lparr>CliName = cli, KodiName = kodi, Description = descr,
      ParametersDescription = pdescr, CreateParameterMap = build\<rparr>"

definition CommandTable :: "(string \<times> Command) list" where
  \<open>CommandTable =
    [(''play'', mkCommand ''play'' ''Player.PlayPause''
        ''Resumes the current playback from pause state.'' Map.empty playerParameterMap),
     (''pause'', mkCommand ''pause'' ''Player.PlayPause''
        ''Pauses the current playback.'' Map.empty playerParameterMap),
     (''stop'', mkCommand ''stop'' ''Player.Stop''
        ''Stops the current playback.'' Map.empty playerParameterMap),
     (''mute'', mkCommand ''mute'' ''Application.SetMute''
        ''Mutes or unmutes the audio.'' Map.empty muteParameterMap),
     (''seek'', mkCommand ''seek'' ''Player.Seek''
        ''Jumps to the given time.''
        [''-/+'' \<mapsto> ''Jump back/forth n seconds.'',
         ''--/++'' \<mapsto> ''Jump back/forth n seconds.'',
         ''[hh:]mm:ss'' \<mapsto> ''Junp to hours:minutes:seconds (hours optional)'']
        seekParameterMap),
     (''speed'', mkCommand ''speed'' ''Player.Speed''
        ''Set the playback speed.'' [''speed'' \<mapsto> ''Speed as integer''] speedParameterMap),
     (''action'', mkCommand ''action'' ''Input.Select''
        ''Selects the current selection.'' Map.empty noParameterMap),
     (''context'', mkCommand ''context'' ''Input.ContextMenu''
        ''Opens the context menu.'' Map.empty noParameterMap),
     (''info'', mkCommand ''info'' ''Input.Info''
        ''Opens the info view.'' Map.empty noParameterMap),
     (''home'', mkCommand ''home'' ''Input.Home''
        ''Returns to the home screen.'' Map.empty noParameterMap),
     (''back'', mkCommand ''back'' ''Input.Back''
        ''Returns to the previous view.'' Map.empty noParameterMap),
     (''left'', mkCommand ''left'' ''Input.Left''
        ''Sends the cursor one item to the left'' Map.empty noParameterMap),
     (''right'', mkCommand ''right'' ''Input.Right''
        ''Sends the cursor one item to the right.'' Map.empty noParameterMap),
     (''up'', mkCommand ''up'' ''Input.Up''
        ''Sends the cursor one item up.'' Map.empty noParameterMap),
     (''down'', mkCommand ''down'' ''Input.Down''
        ''Sends the cursor one item down.'' Map.empty noParameterMap),
     (''notify'', mkCommand ''notify'' ''GUI.ShowNotification''
        ''Displays a notification on the screen.''
        [''title'' \<mapsto> ''The title of the notification.'',
         ''message'' \<mapsto> ''The message of the notification.'',
         ''displaytime'' \<mapsto> ''(optional) The time in milliseconds the notification is displayed.'']
        noParameterMap),
     (''clean'', mkCommand ''clean'' ''VideoLibrary.Clean''
        ''Cleans the video library from non-existent items.'' Map.empty noParameterMap),
     (''update'', mkCommand ''update'' ''VideoLibrary.Scan''
        ''Scans the video sources for new library items.'' Map.empty noParameterMap)]\<close>

text \<open>
  \<open>CommandMap\<close> is a \<open>map[string]*Command\<close>: a lookup gives the pointer and
  whether the key is present; on a miss the pointer is \<open>nil\<close> (\<open>None\<close>).
\<close>

definition CommandMap :: "string \<Rightarrow> Command option" where
  "CommandMap = map_of CommandTable"

definition mapIndex :: "('k \<Rightarrow> 'v option) \<Rightarrow> 'k \<Rightarrow> 'v option \<times> bool" where
  "mapIndex m k = (m k, m k \<noteq> None)"

text \<open>
  \<open>GetCommandForName\<close> returns a copy of the command related to the name
  passed: it dereferences the pointer of the lookup before looking at \<open>success\<close>.
\<close>

definition GetCommandForName :: "string \<Rightarrow> (Command \<times> bool) outcome" where
  "GetCommandForName cmd =
     (let (command, success) = mapIndex CommandMap cmd
      in case command of
           None \<Rightarrow> Panicked NilPointerDereference
         | Some c \<Rightarrow> Returned (c, success))"

text \<open>
  \<open>getRepeatCount\<close> returns for some allowed actions the number how often the
  action should be executed. It takes \<open>params\<close> by pointer and may shorten it, so
  the model returns the count together with the parameter list it leaves.
\<close>

definition getRepeatCount :: "string \<Rightarrow> string list \<Rightarrow> int \<times> string list" where
  "getRepeatCount action params =
     (if length params > 0 \<and>
         (action = ''down'' \<or> action = ''up'' \<or> action = ''left'' \<or> action = ''right'')
      then
        (case Atoi (params ! (length params - 1)) of
           Inl err \<Rightarrow> (1, params)
         | Inr num \<Rightarrow>
             if num < 1 then (1, params)
             else (num, take (length params - 1) params))
      else (1, params))"

section \<open>Requests\<close>

text \<open>
  \<open>CommandRequest\<close> represents all parameters of a JSON-RPC call. A variable of
  this type starts with Go's zero values.
\<close>

record CommandRequest =
  JSONrpc :: string
  Method :: string
  Params :: payload
  ID :: int

definition zeroCommandRequest :: CommandRequest where
  "zeroCommandRequest = \<lparr>JSONrpc = [], Method = [], Params = Map.empty, ID = 0\<rparr>"

definition SetValues :: "CommandRequest \<Rightarrow> string \<Rightarrow> payload \<Rightarrow> CommandRequest" where
  "SetValues self method params =
     self\<lparr>JSONrpc := ''2.0'', ID := 1, Method := method, Params := params\<rparr>"

text \<open>
  \<open>json.Marshal\<close> of a \<open>CommandRequest\<close> writes one JSON object whose members
  follow the struct's fields and their tags: \<open>jsonrpc\<close>, \<open>method\<close>,
  \<open>params,omitempty\<close>, \<open>id\<close>. The serialised text is kept as the list of its
  members in the order they are written; \<open>omitempty\<close> leaves a map of length 0
  out. For values of these types the encoder does not fail.
\<close>

datatype json_value = JNull | JString string | JNumber int | JObject payload

type_synonym json_object = "(string \<times> json_value) list"

definition Marshal :: "CommandRequest \<Rightarrow> go_error + json_object" where
  "Marshal c =
     Inr ([(''jsonrpc'', JString (JSONrpc c)), (''method'', JString (Method c))]
          @ (if Params c = Map.empty then [] else [(''params'', JObject (Params c))])
          @ [(''id'', JNumber (ID c))])"

text \<open>
  \<open>createJsonCommand\<close> takes the action and the params and creates the request:
  the serialised JSON, or an error.
\<close>

definition createJsonCommand :: "string \<Rightarrow> string list \<Rightarrow> json_object outcome" where
  "createJsonCommand action params =
     (let command = zeroCommandRequest;
          (cmd, success) = mapIndex CommandMap action
      in if success then
           (case cmd of
              None \<Rightarrow> Panicked NilPointerDereference
            | Some c \<Rightarrow>
                (case CreateParameterMap c params of
                   Panicked p \<Rightarrow> Panicked p
                 | Failed err \<Rightarrow> Failed err
                 | Returned paramMap \<Rightarrow>
                     (case Marshal (SetValues command (KodiName c) paramMap) of
                        Inr output \<Rightarrow> Returned output
                      | Inl err \<Rightarrow> Failed err)))
         else Failed (ErrorString (''The Command '' @ action @ '' is unknown.'')))"

section \<open>Responses\<close>

text \<open>
  \<open>ErrorResponse\<close>, \<open>Error\<close>, \<open>Data\<close> and \<open>Stack\<close> are the structs the
  response is decoded into. Three of them have a field \<open>Message\<close>, so the fields
  carry the name of their struct in front.
\<close>

record Stack =
  stack_Name :: string
  stack_Type :: string
  stack_Message :: string

record Data =
  data_Message :: string
  data_Method :: string
  data_Stack :: Stack

record Error =
  error_Code :: int
  error_Data :: Data
  error_Message :: string

record ErrorResponse =
  resp_Error :: Error
  resp_ID :: int
  resp_JsonRPC :: string

definition zeroStack :: Stack where
  "zeroStack = \<lparr>stack_Name = [], stack_Type = [], stack_Message = []\<rparr>"

definition zeroData :: Data where
  "zeroData = \<lparr>data_Message = [], data_Method = [], data_Stack = zeroStack\<rparr>"

definition zeroError :: Error where
  "zeroError = \<lparr>error_Code = 0, error_Data = zeroData, error_Message = []\<rparr>"

definition zeroErrorResponse :: ErrorResponse where
  "zeroErrorResponse = \<lparr>resp_Error = zeroError, resp_ID = 0, resp_JsonRPC = []\<rparr>"

text \<open>
  A response body that \<open>json.Unmarshal\<close> accepts is a JSON object in which each
  member the structs name is present with a value of the field's type, or absent
  (or \<open>null\<close>). Decoding stores the members that are present and leaves every
  other field as it was: the zero value of \<open>var errorResponse ErrorResponse\<close>.
\<close>

record stack_body =
  body_stack_name :: "string option"
  body_stack_type :: "string option"
  body_stack_message :: "string option"

record data_body =
  body_data_message :: "string option"
  body_data_method :: "string option"
  body_data_stack :: "stack_body option"

record error_body =
  body_error_code :: "int option"
  body_error_data :: "data_body option"
  body_error_message :: "string option"

record response_body =
  body_error :: "error_body option"
  body_id :: "int option"
  body_jsonrpc :: "string option"

definition store :: "'a option \<Rightarrow> 'a \<Rightarrow> 'a" where
  "store member field = (case member of None \<Rightarrow> field | Some v \<Rightarrow> v)"

definition UnmarshalStack :: "stack_body \<Rightarrow> Stack \<Rightarrow> Stack" where
  "UnmarshalStack b s =
     \<lparr>stack_Name = store (body_stack_name b) (stack_Name s),
      stack_Type = store (body_stack_type b) (stack_Type s),
      stack_Message = store (body_stack_message b) (stack_Message s)\<rparr>"

definition UnmarshalData :: "data_body \<Rightarrow> Data \<Rightarrow> Data" where
  "UnmarshalData b d =
     \<lparr>data_Message = store (body_data_message b) (data_Message d),
      data_Method = store (body_data_method b) (data_Method d),
      data_Stack = (case body_data_stack b of
                      None \<Rightarrow> data_Stack d
                    | Some sb \<Rightarrow> UnmarshalStack sb (data_Stack d))\<rparr>"

definition UnmarshalError :: "error_body \<Rightarrow> Error \<Rightarrow> Error" where
  "UnmarshalError b e =
     \<lparr>error_Code = store (body_error_code b) (error_Code e),
      error_Data = (case body_error_data b of
                      None \<Rightarrow> error_Data e
                    | Some db \<Rightarrow> UnmarshalData db (error_Data e)),
      error_Message = store (body_error_message b) (error_Message e)\<rparr>"

definition Unmarshal :: "response_body \<Rightarrow> ErrorResponse \<Rightarrow> ErrorResponse" where
  "Unmarshal b r =
     \<lparr>resp_Error = (case body_error b of
                      None \<Rightarrow> resp_Error r
                    | Some eb \<Rightarrow> UnmarshalError eb (resp_Error r)),
      resp_ID = store (body_id b) (resp_ID r),
      resp_JsonRPC = store (body_jsonrpc b) (resp_JsonRPC r)\<rparr>"

text \<open>\<open>createJsonError\<close> creates a more readable message from an \<open>ErrorResponse\<close>.\<close>

definition createJsonError :: "ErrorResponse \<Rightarrow> go_error" where
  \<open>createJsonError errorResponse =
     (let message = [];
          message = (if data_Message (error_Data (resp_Error errorResponse)) \<noteq> []
                     then message @ data_Message (error_Data (resp_Error errorResponse)) @ '' ''
                     else message);
          message = (if stack_Message (data_Stack (error_Data (resp_Error errorResponse))) \<noteq> []
                     then message @ stack_Message (data_Stack (error_Data (resp_Error errorResponse)))
                          @ '' regarding ''
                     else message);
          message = (if stack_Name (data_Stack (error_Data (resp_Error errorResponse))) \<noteq> []
                     then message @ ''parameter "''
                          @ stack_Name (data_Stack (error_Data (resp_Error errorResponse))) @ ''" ''
                     else message);
          message = (if stack_Type (data_Stack (error_Data (resp_Error errorResponse))) \<noteq> []
                     then message @ ''of type "''
                          @ stack_Type (data_Stack (error_Data (resp_Error errorResponse))) @ ''"''
                     else message)
      in ErrorString message)\<close>

section \<open>The dispatcher\<close>

text \<open>
  What the network does with one call of \<open>sendRequest\<close> is given from outside:
  \<open>http.NewRequest\<close> fails, or \<open>client.Do\<close> fails, or reading the body fails,
  or the body does not decode, or the body decodes.
\<close>

datatype exchange =
    NewRequestFails go_error
  | DoFails go_error
  | ReadAllFails go_error
  | UnmarshalFails go_error
  | Body response_body

record http_request =
  req_method :: string
  req_url :: string
  req_header :: "(string \<times> string) list"
  req_body :: json_object

text \<open>
  \<open>sendRequest\<close> actually sends the request to Kodi. It returns its error
  (\<open>None\<close> for \<open>nil\<close>) and the requests it handed to \<open>client.Do\<close>.
\<close>

definition sendRequest ::
  "exchange \<Rightarrow> string \<Rightarrow> string \<Rightarrow> json_object \<Rightarrow> go_error option \<times> http_request list" where
  "sendRequest ex host port js =
     (let requestURL = ''http://'' @ host @ '':'' @ port @ ''/jsonrpc'';
          request = \<lparr>req_method = ''POST'', req_url = requestURL,
                     req_header = [(''Content-Type'', ''application/json'')], req_body = js\<rparr>
      in case ex of
           NewRequestFails err \<Rightarrow> (Some err, [])
         | DoFails err \<Rightarrow> (Some err, [request])
         | ReadAllFails err \<Rightarrow> (Some err, [request])
         | UnmarshalFails err \<Rightarrow> (Some err, [request])
         | Body resp \<Rightarrow>
             (let errorResponse = Unmarshal resp zeroErrorResponse
              in if error_Code (resp_Error errorResponse) \<noteq> 0
                 then (Some (createJsonError errorResponse), [request])
                 else (None, [request])))"

record Configuration =
  Host :: string
  Port :: string

text \<open>
  The loop of \<open>ExecuteCommand\<close>:
  \<^verbatim>\<open>for i := 0; i < repeatCount; i++ { err = sendRequest(config.Host, config.Port, cmd) }\<close>
  with the exchange of the \<open>i\<close>-th call taken from \<open>net i\<close>.
\<close>

function sendLoop ::
  "(nat \<Rightarrow> exchange) \<Rightarrow> string \<Rightarrow> string \<Rightarrow> json_object \<Rightarrow> int \<Rightarrow> int
   \<Rightarrow> go_error option \<Rightarrow> http_request list \<Rightarrow> go_error option \<times> http_request list" where
  "sendLoop net host port cmd i repeatCount err sent =
     (if i < repeatCount then
        (let (err', reqs) = sendRequest (net (nat i)) host port cmd
         in sendLoop net host port cmd (i + 1) repeatCount err' (sent @ reqs))
      else (err, sent))"
  by pat_completeness auto
termination
  by (relation "measure (\<lambda>(net, host, port, cmd, i, repeatCount, err, sent). nat (repeatCount - i))") auto

text \<open>
  \<open>ExecuteCommand\<close> takes the action, looks up the appropriate JSON-RPC command
  and sends the request to the configured address. The result is what the call
  returns (\<open>Returned ()\<close> for a \<open>nil\<close> error) and the requests sent.
\<close>

definition ExecuteCommand ::
  "(nat \<Rightarrow> exchange) \<Rightarrow> Configuration \<Rightarrow> string \<Rightarrow> string list
   \<Rightarrow> unit outcome \<times> http_request list" where
  "ExecuteCommand net config action params =
     (let (repeatCount, params') = getRepeatCount action params
      in case createJsonCommand action params' of
           Panicked p \<Rightarrow> (Panicked p, [])
         | Failed err \<Rightarrow> (Failed err, [])
         | Returned cmd \<Rightarrow>
             (let (err, sent) = sendLoop net (Host config) (Port config) cmd 0 repeatCount None []
              in case err of
                   None \<Rightarrow> (Returned (), sent)
                 | Some e \<Rightarrow> (Failed e, sent)))"

declare sendLoop.simps [simp del]

section \<open>The specification's table of commands\<close>

text \<open>
  The table of the specification (section 4.1): each CLI name with the remote
  method it stands for. It is compared with \<open>CommandMap\<close> below.
\<close>

definition remoteMethodTable :: "(string \<times> string) list" where
  "remoteMethodTable =
    [(''play'', ''Player.PlayPause''), (''pause'', ''Player.PlayPause''),
     (''stop'', ''Player.Stop''), (''mute'', ''Application.SetMute''),
     (''seek'', ''Player.Seek''), (''speed'', ''Player.Speed''),
     (''action'', ''Input.Select''), (''context'', ''Input.ContextMenu''),
     (''info'', ''Input.Info''), (''home'', ''Input.Home''), (''back'', ''Input.Back''),
     (''left'', ''Input.Left''), (''right'', ''Input.Right''), (''up'', ''Input.Up''),
     (''down'', ''Input.Down''), (''notify'', ''GUI.ShowNotification''),
     (''clean'', ''VideoLibrary.Clean''), (''update'', ''VideoLibrary.Scan'')]"

definition commandNames :: "string list" where
  "commandNames = map fst remoteMethodTable"

section \<open>The specification's words for tokens, payloads and requests\<close>

text \<open>
  The payload of an absolute seek (section 4.2, step 6): player 1 and a time
  with hours, minutes, seconds and milliseconds, the milliseconds fixed at 0.
\<close>

definition timePayload :: "int \<Rightarrow> int \<Rightarrow> int \<Rightarrow> payload" where
  "timePayload h m s =
     [''playerid'' \<mapsto> IntVal 1,
      ''value'' \<mapsto> IntMapVal [''hours'' \<mapsto> h, ''minutes'' \<mapsto> m, ''seconds'' \<mapsto> s, ''milliseconds'' \<mapsto> 0]]"

text \<open>The symbolic seek tokens (section 4.2, step 2).\<close>

definition symbolicToken :: "string \<Rightarrow> bool" where
  "symbolicToken t = (t = ''+'' \<or> t = ''++'' \<or> t = ''-'' \<or> t = ''--'')"

text \<open>The repeatable actions (section 4.3).\<close>

definition directional :: "string \<Rightarrow> bool" where
  "directional action = (action = ''up'' \<or> action = ''down'' \<or> action = ''left'' \<or> action = ''right'')"

text \<open>
  The request of section 4.4, step 5: a POST to \<open>http://{host}:{port}/jsonrpc\<close>
  with the header \<open>Content-Type: application/json\<close> and the serialised command.
\<close>

definition postedRequest :: "string \<Rightarrow> string \<Rightarrow> json_object \<Rightarrow> http_request" where
  "postedRequest host port js =
     \<lparr>req_method = ''POST'', req_url = ''http://'' @ host @ '':'' @ port @ ''/jsonrpc'',
      req_header = [(''Content-Type'', ''application/json'')], req_body = js\<rparr>"

text \<open>A network on which \<open>http.NewRequest\<close> never fails, so every call posts.\<close>

definition reachable :: "(nat \<Rightarrow> exchange) \<Rightarrow> bool" where
  "reachable net = (\<forall>i e. net i \<noteq> NewRequestFails e)"

section \<open>The specification's words for responses\<close>

text \<open>
  The response bodies of the specification's examples (section 8): the error 402
  with \<open>data.message = "Invalid params"\<close>, \<open>data.stack.name = "title"\<close> and
  \<open>data.stack.type = "string"\<close>; the body \<open>{"jsonrpc":"2.0","id":1}\<close> without
  an error member; and a body whose error member has the code 0.
\<close>

definition invalidParamsBody :: response_body where
  "invalidParamsBody =
     \<lparr>body_error = Some
        \<lparr>body_error_code = Some 402,
         body_error_data = Some
           \<lparr>body_data_message = Some ''Invalid params'',
            body_data_method = None,
            body_data_stack = Some
              \<lparr>body_stack_name = Some ''title'', body_stack_type = Some ''string'',
               body_stack_message = None\<rparr>\<rparr>,
         body_error_message = None\<rparr>,
      body_id = Some 1, body_jsonrpc = Some ''2.0''\<rparr>"

definition successBody :: response_body where
  "successBody = \<lparr>body_error = None, body_id = Some 1, body_jsonrpc = Some ''2.0''\<rparr>"

definition zeroCodeBody :: response_body where
  "zeroCodeBody =
     \<lparr>body_error = Some \<lparr>body_error_code = Some 0, body_error_data = None, body_error_message = None\<rparr>,
      body_id = None, body_jsonrpc = None\<rparr>"

text \<open>
  A body that carries no error (section 3): the error member is absent, or it is
  present without a code or with the code 0.
\<close>

definition noErrorBody :: "response_body \<Rightarrow> bool" where
  "noErrorBody b =
     (case body_error b of
        None \<Rightarrow> True
      | Some eb \<Rightarrow> (case body_error_code eb of None \<Rightarrow> True | Some code \<Rightarrow> code = 0))"

text \<open>
  The message of a remote error in the words of section 7: the segments of the
  data message, the stack message, the parameter name and the type, in this order,
  each left out when its field is empty. The text around each field is the one
  \<open>createJsonError\<close> writes.
\<close>

definition composedMessage :: "string \<Rightarrow> string \<Rightarrow> string \<Rightarrow> string \<Rightarrow> string" where
  \<open>composedMessage dataMessage stackMessage name type =
     concat (map snd (filter (\<lambda>(field, segment). field \<noteq> [])
       [(dataMessage, dataMessage @ '' ''),
        (stackMessage, stackMessage @ '' regarding ''),
        (name, ''parameter "'' @ name @ ''" ''),
        (type, ''of type "'' @ type @ ''"'')]))\<close>

section \<open>Properties of the command table\<close>

lemma map_of_map_snd: "map_of (map (\<lambda>(k, v). (k, f v)) xs) k = map_option f (map_of xs k)"
  by (induction xs) auto

lemma CommandTable_methods: "map (\<lambda>(n, c). (n, KodiName c)) CommandTable = remoteMethodTable"
  by (simp add: CommandTable_def remoteMethodTable_def mkCommand_def)

lemma CommandMap_method: "map_option KodiName (CommandMap name) = map_of remoteMethodTable name"
  unfolding CommandMap_def CommandTable_methods [symmetric] by (simp add: map_of_map_snd)

lemma CommandMap_dom: "dom CommandMap = set commandNames"
proof -
  have "dom CommandMap = dom (\<lambda>n. map_option KodiName (CommandMap n))"
    by (auto simp: dom_def)
  also have "\<dots> = dom (map_of remoteMethodTable)"
    by (simp add: CommandMap_method)
  also have "\<dots> = set commandNames"
    by (simp add: dom_map_of_conv_image_fst commandNames_def)
  finally show ?thesis .
qed

lemma CommandMap_None_iff: "CommandMap n = None \<longleftrightarrow> n \<notin> set commandNames"
  using CommandMap_dom [symmetric] by (simp add: domIff)

lemma commandNames_count: "length commandNames = 18 \<and> distinct commandNames"
  by (simp add: commandNames_def remoteMethodTable_def)

lemma directional_known:
  "action = ''down'' \<or> action = ''up'' \<or> action = ''left'' \<or> action = ''right''
   \<Longrightarrow> action \<in> set commandNames"
  by (auto simp: commandNames_def remoteMethodTable_def)

lemma getRepeatCount_other:
  "\<not> (action = ''down'' \<or> action = ''up'' \<or> action = ''left'' \<or> action = ''right'')
   \<Longrightarrow> getRepeatCount action params = (1, params)"
  by (simp add: getRepeatCount_def)

lemma createJsonCommand_unknown:
  assumes "CommandMap name = None"
  shows "createJsonCommand name params
         = Failed (ErrorString (''The Command '' @ name @ '' is unknown.''))"
  using assms by (simp add: createJsonCommand_def mapIndex_def)

text \<open>
  C6: for every CLI name of the specification's table, the lookup in
  \<open>CommandMap\<close> yields a command whose remote method is the one of the table;
  for every name that is not in the table, \<open>createJsonCommand\<close> fails with the
  message that names the unknown command, so no request is built, and
  \<open>ExecuteCommand\<close> returns that error having sent nothing.
\<close>

theorem registry_lookup:
  "(map_of remoteMethodTable name = Some m \<longrightarrow>
      (\<exists>c. CommandMap name = Some c \<and> KodiName c = m))
   \<and> (map_of remoteMethodTable name = None \<longrightarrow>
        CommandMap name = None
        \<and> createJsonCommand name params
            = Failed (ErrorString (''The Command '' @ name @ '' is unknown.''))
        \<and> ExecuteCommand net config name params
            = (Failed (ErrorString (''The Command '' @ name @ '' is unknown.'')), []))"
proof (intro conjI impI)
  assume "map_of remoteMethodTable name = Some m"
  then have "map_option KodiName (CommandMap name) = Some m"
    by (simp add: CommandMap_method)
  then show "\<exists>c. CommandMap name = Some c \<and> KodiName c = m"
    by (cases "CommandMap name") auto
next
  assume miss: "map_of remoteMethodTable name = None"
  then have "map_option KodiName (CommandMap name) = None"
    by (simp add: CommandMap_method)
  then show none: "CommandMap name = None" by simp
  show unknown: "createJsonCommand name params
            = Failed (ErrorString (''The Command '' @ name @ '' is unknown.''))"
    using none by (rule createJsonCommand_unknown)
  have "name \<notin> set commandNames"
    using none by (simp add: CommandMap_None_iff)
  then have "getRepeatCount name params = (1, params)"
    using directional_known [of name] getRepeatCount_other [of name params] by blast
  then show "ExecuteCommand net config name params
            = (Failed (ErrorString (''The Command '' @ name @ '' is unknown.'')), [])"
    using unknown by (simp add: ExecuteCommand_def)
qed

theorem registry_lookup_witness:
  "map_of remoteMethodTable ''mute'' = Some ''Application.SetMute''
   \<and> (\<exists>c. CommandMap ''mute'' = Some c \<and> KodiName c = ''Application.SetMute'')
   \<and> (\<exists>c. CommandMap ''play'' = Some c \<and> KodiName c = ''Player.PlayPause'')
   \<and> (\<exists>c. CommandMap ''pause'' = Some c \<and> KodiName c = ''Player.PlayPause'')
   \<and> (\<exists>c. CommandMap ''update'' = Some c \<and> KodiName c = ''VideoLibrary.Scan'')
   \<and> map_of remoteMethodTable ''volume'' = None
   \<and> ExecuteCommand (\<lambda>i. DoFails (LibraryError ''unreachable''))
         \<lparr>Host = ''localhost'', Port = ''8080''\<rparr> ''volume'' [''3'']
       = (Failed (ErrorString ''The Command volume is unknown.''), [])"
  using registry_lookup [of "''mute''" "''Application.SetMute''"]
    registry_lookup [of "''play''" "''Player.PlayPause''"]
    registry_lookup [of "''pause''" "''Player.PlayPause''"]
    registry_lookup [of "''update''" "''VideoLibrary.Scan''"]
    registry_lookup [of "''volume''" "[]" "[''3'']" "\<lambda>i. DoFails (LibraryError ''unreachable'')"
      "\<lparr>Host = ''localhost'', Port = ''8080''\<rparr>"]
  by (simp add: remoteMethodTable_def)

text \<open>
  C10: for every string that is not a key of \<open>CommandMap\<close>,
  \<open>GetCommandForName\<close> dereferences the nil pointer of the map miss and faults
  instead of returning a pair with \<open>false\<close>; it returns normally exactly for the
  18 registered command names.
\<close>

theorem GetCommandForName_nil_dereference:
  "(CommandMap cmd = None \<longrightarrow> GetCommandForName cmd = Panicked NilPointerDereference)
   \<and> ((\<exists>r. GetCommandForName cmd = Returned r) \<longleftrightarrow> cmd \<in> set commandNames)
   \<and> (cmd \<in> set commandNames \<longrightarrow>
        (\<exists>c. CommandMap cmd = Some c \<and> GetCommandForName cmd = Returned (c, True)))
   \<and> length commandNames = 18 \<and> distinct commandNames"
  using CommandMap_None_iff [of cmd] commandNames_count
  by (cases "CommandMap cmd") (auto simp: GetCommandForName_def mapIndex_def)

theorem GetCommandForName_nil_dereference_witness:
  "CommandMap ''volume'' = None \<and> GetCommandForName ''volume'' = Panicked NilPointerDereference
   \<and> ''seek'' \<in> set commandNames \<and> (\<exists>c. GetCommandForName ''seek'' = Returned (c, True))"
  using GetCommandForName_nil_dereference [of "''volume''"]
    GetCommandForName_nil_dereference [of "''seek''"]
  by (auto simp: commandNames_def remoteMethodTable_def CommandMap_def CommandTable_def)

section \<open>Properties of the seek builder\<close>

text \<open>
  C9: for every token list whose first token is exactly \<open>+\<close>, \<open>++\<close>, \<open>-\<close>
  or \<open>--\<close>, the seek builder returns player 1 with the value
  \<open>smallforward\<close>, \<open>bigforward\<close>, \<open>smallbackward\<close> or \<open>bigbackward\<close>
  respectively, whatever the other tokens are.
\<close>

theorem seek_symbolic_tokens:
  "seekParameterMap (''+'' # rest) = Returned [''playerid'' \<mapsto> IntVal 1, ''value'' \<mapsto> StrVal ''smallforward'']
   \<and> seekParameterMap (''++'' # rest) = Returned [''playerid'' \<mapsto> IntVal 1, ''value'' \<mapsto> StrVal ''bigforward'']
   \<and> seekParameterMap (''-'' # rest) = Returned [''playerid'' \<mapsto> IntVal 1, ''value'' \<mapsto> StrVal ''smallbackward'']
   \<and> seekParameterMap (''--'' # rest) = Returned [''playerid'' \<mapsto> IntVal 1, ''value'' \<mapsto> StrVal ''bigbackward'']"
  by (simp add: seekParameterMap_def)

lemma timeMap_hours:
  "([''hours'' \<mapsto> 0, ''minutes'' \<mapsto> 0, ''seconds'' \<mapsto> 0, ''milliseconds'' \<mapsto> (0::int)]
     (''hours'' \<mapsto> h))(''minutes'' \<mapsto> m, ''seconds'' \<mapsto> s)
   = [''hours'' \<mapsto> h, ''minutes'' \<mapsto> m, ''seconds'' \<mapsto> s, ''milliseconds'' \<mapsto> 0]"
  by (rule ext) simp

lemma timeMap_no_hours:
  "[''hours'' \<mapsto> 0, ''minutes'' \<mapsto> 0, ''seconds'' \<mapsto> 0, ''milliseconds'' \<mapsto> (0::int)]
     (''minutes'' \<mapsto> m, ''seconds'' \<mapsto> s)
   = [''hours'' \<mapsto> 0, ''minutes'' \<mapsto> m, ''seconds'' \<mapsto> s, ''milliseconds'' \<mapsto> 0]"
  by (rule ext) simp

lemma timePayload_hours:
  "timePayload h m s =
     [''playerid'' \<mapsto> IntVal 1,
      ''value'' \<mapsto> IntMapVal
         (([''hours'' \<mapsto> 0, ''minutes'' \<mapsto> 0, ''seconds'' \<mapsto> 0, ''milliseconds'' \<mapsto> 0]
           (''hours'' \<mapsto> h))(''minutes'' \<mapsto> m, ''seconds'' \<mapsto> s))]"
  by (simp only: timePayload_def timeMap_hours)

lemma timePayload_no_hours:
  "timePayload 0 m s =
     [''playerid'' \<mapsto> IntVal 1,
      ''value'' \<mapsto> IntMapVal
         ([''hours'' \<mapsto> 0, ''minutes'' \<mapsto> 0, ''seconds'' \<mapsto> 0, ''milliseconds'' \<mapsto> 0]
           (''minutes'' \<mapsto> m, ''seconds'' \<mapsto> s))]"
  by (simp only: timePayload_def timeMap_no_hours)

lemma seek_nonsymbolic:
  assumes "params \<noteq> []" "\<not> symbolicToken (hd params)"
  shows "seekParameterMap params =
     (let timeMap = [''hours'' \<mapsto> 0, ''minutes'' \<mapsto> 0, ''seconds'' \<mapsto> 0, ''milliseconds'' \<mapsto> 0];
          hms = Split (last params) CHR '':''
      in if length hms = 3 then
           (case parseTimeNumber (hms ! 0) of
              Inl err \<Rightarrow> Failed err
            | Inr hours \<Rightarrow> seekMinutesSeconds (timeMap(''hours'' \<mapsto> hours)) (drop 1 hms))
         else seekMinutesSeconds timeMap hms)"
proof -
  have first: "params ! 0 = hd params"
    using assms(1) by (simp add: hd_conv_nth)
  have final: "params ! (length params - 1) = last params"
    using assms(1) by (simp add: last_conv_nth)
  have len: "\<not> length params < 1"
    using assms(1) by (cases params) simp_all
  have val: "hd params \<noteq> ''+''" "hd params \<noteq> ''++''" "hd params \<noteq> ''-''" "hd params \<noteq> ''--''"
    using assms(2) by (simp_all add: symbolicToken_def)
  show ?thesis
    unfolding seekParameterMap_def first final
    by (simp only: len val if_False Let_def list.size less_irrefl)
qed

lemma seekMinutesSeconds_pair:
  "seekMinutesSeconds tm [b, c] =
     (case parseTimeNumber b of
        Inl err \<Rightarrow> Failed err
      | Inr m \<Rightarrow> (case parseTimeNumber c of
                    Inl err \<Rightarrow> Failed err
                  | Inr s \<Rightarrow> Returned [''playerid'' \<mapsto> IntVal 1,
                                       ''value'' \<mapsto> IntMapVal (tm(''minutes'' \<mapsto> m, ''seconds'' \<mapsto> s))]))"
  by (simp add: seekMinutesSeconds_def split: sum.splits)

lemma seek_two:
  assumes "params \<noteq> []" "\<not> symbolicToken (hd params)" "Split (last params) CHR '':'' = [b, c]"
  shows "seekParameterMap params =
     (case parseTimeNumber b of
        Inl err \<Rightarrow> Failed err
      | Inr m \<Rightarrow> (case parseTimeNumber c of
                    Inl err \<Rightarrow> Failed err
                  | Inr s \<Rightarrow> Returned (timePayload 0 m s)))"
  unfolding timePayload_no_hours seek_nonsymbolic [OF assms(1,2)] assms(3) Let_def
  by (simp only: seekMinutesSeconds_pair) simp

lemma seek_three:
  assumes "params \<noteq> []" "\<not> symbolicToken (hd params)" "Split (last params) CHR '':'' = [a, b, c]"
  shows "seekParameterMap params =
     (case parseTimeNumber a of
        Inl err \<Rightarrow> Failed err
      | Inr h \<Rightarrow>
     (case parseTimeNumber b of
        Inl err \<Rightarrow> Failed err
      | Inr m \<Rightarrow> (case parseTimeNumber c of
                    Inl err \<Rightarrow> Failed err
                  | Inr s \<Rightarrow> Returned (timePayload h m s))))"
proof -
  have d: "drop 1 [a, b, c] = [b, c]" "[a, b, c] ! 0 = a" "length [a, b, c] = 3"
    by simp_all
  show ?thesis
    unfolding timePayload_hours seek_nonsymbolic [OF assms(1,2)] assms(3) Let_def
    by (simp only: d seekMinutesSeconds_pair) simp
qed

lemma seek_other:
  assumes "params \<noteq> []" "\<not> symbolicToken (hd params)"
    "length (Split (last params) CHR '':'') \<noteq> 3" "length (Split (last params) CHR '':'') \<noteq> 2"
  shows \<open>seekParameterMap params
         = Failed (ErrorString ''Illegal parameter. See "help seek" for usage information.'')\<close>
  by (simp add: seek_nonsymbolic [OF assms(1,2)] assms(3,4) seekMinutesSeconds_def)

lemma length2E: "length xs = 2 \<Longrightarrow> \<exists>b c. xs = [b, c]"
  by (cases xs; cases "tl xs") auto

lemma length3E: "length xs = 3 \<Longrightarrow> \<exists>a b c. xs = [a, b, c]"
  by (cases xs; cases "tl xs"; cases "tl (tl xs)") auto

lemma Atoi_error: "Atoi s = Inl e \<Longrightarrow> \<exists>k. e = NumError ''Atoi'' s k"
  by (auto simp: Atoi_def Let_def split: if_splits option.splits sum.splits)

lemma parseTimeNumber_Inr: "parseTimeNumber s = Inr n \<longleftrightarrow> Atoi s = Inr n \<and> 0 \<le> n \<and> n \<le> 59"
  by (auto simp: parseTimeNumber_def split: sum.splits)

lemma parseTimeNumber_range:
  "Atoi s = Inr n \<Longrightarrow> n < 0 \<or> 59 < n \<Longrightarrow>
   parseTimeNumber s = Inl (ErrorString (''A time-number needs to be between 0 and 59, but was '' @ s))"
  by (auto simp: parseTimeNumber_def)

lemma parseTimeNumber_Atoi_error: "Atoi s = Inl e \<Longrightarrow> parseTimeNumber s = Inl e"
  by (simp add: parseTimeNumber_def)

text \<open>
  C3: for a non-empty token list whose first token is not symbolic, the seek
  builder splits the last token at the colons. Three pieces are hours, minutes and
  seconds; two pieces are minutes and seconds; any other number of pieces fails
  with the message "Illegal parameter". Every success is a time payload: player 1,
  the parsed components and milliseconds 0. The empty token list fails with
  "Not enough parameters", and the token \<open>01:02:03\<close> gives 1 hour, 2 minutes,
  3 seconds.
\<close>

theorem seek_absolute_time:
  \<open>(params \<noteq> [] \<and> \<not> symbolicToken (hd params) \<longrightarrow>
      (\<forall>a b c h m s. Split (last params) CHR '':'' = [a, b, c]
          \<and> parseTimeNumber a = Inr h \<and> parseTimeNumber b = Inr m \<and> parseTimeNumber c = Inr s
          \<longrightarrow> seekParameterMap params = Returned (timePayload h m s))
    \<and> (\<forall>b c m s. Split (last params) CHR '':'' = [b, c]
          \<and> parseTimeNumber b = Inr m \<and> parseTimeNumber c = Inr s
          \<longrightarrow> seekParameterMap params = Returned (timePayload 0 m s))
    \<and> (length (Split (last params) CHR '':'') \<noteq> 3 \<and> length (Split (last params) CHR '':'') \<noteq> 2
          \<longrightarrow> seekParameterMap params
              = Failed (ErrorString ''Illegal parameter. See "help seek" for usage information.''))
    \<and> (\<forall>p. seekParameterMap params = Returned p \<longrightarrow> (\<exists>h m s. p = timePayload h m s)))
   \<and> seekParameterMap []
       = Failed (ErrorString ''Not enough parameters. See "help seek" for usage information.'')
   \<and> seekParameterMap [''01:02:03''] = Returned (timePayload 1 2 3)\<close>
proof (intro conjI impI allI)
  show \<open>seekParameterMap []
       = Failed (ErrorString ''Not enough parameters. See "help seek" for usage information.'')\<close>
    by (simp add: seekParameterMap_def)
next
  have "Split ''01:02:03'' CHR '':'' = [''01'', ''02'', ''03'']" by simp
  moreover have "parseTimeNumber ''01'' = Inr 1" "parseTimeNumber ''02'' = Inr 2"
      "parseTimeNumber ''03'' = Inr 3"
    by (simp_all add: parseTimeNumber_def Atoi_def byteDigit_def)
  ultimately show "seekParameterMap [''01:02:03''] = Returned (timePayload 1 2 3)"
    using seek_three [of "[''01:02:03'']" "''01''" "''02''" "''03''"]
    by (simp add: symbolicToken_def)
next
  fix a b c h m s
  assume "params \<noteq> [] \<and> \<not> symbolicToken (hd params)"
    and "Split (last params) CHR '':'' = [a, b, c]
          \<and> parseTimeNumber a = Inr h \<and> parseTimeNumber b = Inr m \<and> parseTimeNumber c = Inr s"
  then show "seekParameterMap params = Returned (timePayload h m s)"
    by (simp add: seek_three)
next
  fix b c m s
  assume "params \<noteq> [] \<and> \<not> symbolicToken (hd params)"
    and "Split (last params) CHR '':'' = [b, c]
          \<and> parseTimeNumber b = Inr m \<and> parseTimeNumber c = Inr s"
  then show "seekParameterMap params = Returned (timePayload 0 m s)"
    by (simp add: seek_two)
next
  assume "params \<noteq> [] \<and> \<not> symbolicToken (hd params)"
    and "length (Split (last params) CHR '':'') \<noteq> 3 \<and> length (Split (last params) CHR '':'') \<noteq> 2"
  then show \<open>seekParameterMap params
              = Failed (ErrorString ''Illegal parameter. See "help seek" for usage information.'')\<close>
    by (simp add: seek_other)
next
  fix p
  assume ns: "params \<noteq> [] \<and> \<not> symbolicToken (hd params)"
    and ret: "seekParameterMap params = Returned p"
  let ?parts = "Split (last params) CHR '':''"
  consider (three) "length ?parts = 3" | (two) "length ?parts = 2"
    | (other) "length ?parts \<noteq> 3" "length ?parts \<noteq> 2"
    by blast
  then show "\<exists>h m s. p = timePayload h m s"
  proof cases
    case three
    then obtain a b c where "?parts = [a, b, c]" using length3E by blast
    with ns ret show ?thesis
      by (auto simp: seek_three split: sum.splits)
  next
    case two
    then obtain b c where "?parts = [b, c]" using length2E by blast
    with ns ret show ?thesis
      by (auto simp: seek_two split: sum.splits)
  next
    case other
    with ns ret show ?thesis by (simp add: seek_other)
  qed
qed

theorem seek_absolute_time_witness:
  "[''10'', ''1:30:05''] \<noteq> [] \<and> \<not> symbolicToken (hd [''10'', ''1:30:05''])
   \<and> Split (last [''10'', ''1:30:05'']) CHR '':'' = [''1'', ''30'', ''05'']
   \<and> parseTimeNumber ''1'' = Inr 1 \<and> parseTimeNumber ''30'' = Inr 30 \<and> parseTimeNumber ''05'' = Inr 5
   \<and> seekParameterMap [''10'', ''1:30:05''] = Returned (timePayload 1 30 5)
   \<and> seekParameterMap [''7:15''] = Returned (timePayload 0 7 15)
   \<and> length (Split (last [''1:2:3:4'']) CHR '':'') = 4
   \<and> (\<exists>e. seekParameterMap [''1:2:3:4''] = Failed (ErrorString e))"
proof -
  have p: "parseTimeNumber ''1'' = Inr 1" "parseTimeNumber ''30'' = Inr 30"
      "parseTimeNumber ''05'' = Inr 5" "parseTimeNumber ''7'' = Inr 7" "parseTimeNumber ''15'' = Inr 15"
    by (simp_all add: parseTimeNumber_def Atoi_def byteDigit_def)
  show ?thesis
    using seek_absolute_time [of "[''10'', ''1:30:05'']"] seek_absolute_time [of "[''7:15'']"]
      seek_absolute_time [of "[''1:2:3:4'']"] p
    by (simp add: symbolicToken_def)
qed

lemma seek_first_failure:
  assumes ns: "params \<noteq> []" "\<not> symbolicToken (hd params)"
    and len: "length (Split (last params) CHR '':'') = 2 \<or> length (Split (last params) CHR '':'') = 3"
    and parts: "Split (last params) CHR '':'' = pre @ c # post"
    and pre: "\<forall>x \<in> set pre. \<exists>k. parseTimeNumber x = Inr k"
    and c: "parseTimeNumber c = Inl e"
  shows "seekParameterMap params = Failed e"
proof -
  let ?parts = "Split (last params) CHR '':''"
  from len show ?thesis
  proof
    assume "length ?parts = 2"
    then obtain b1 c1 where two: "?parts = [b1, c1]" using length2E by blast
    with parts have "(pre = [] \<and> c = b1) \<or> (pre = [b1] \<and> c = c1)"
      by (auto simp: Cons_eq_append_conv)
    with pre c show ?thesis
      by (auto simp: seek_two [OF ns two])
  next
    assume "length ?parts = 3"
    then obtain a1 b1 c1 where three: "?parts = [a1, b1, c1]" using length3E by blast
    with parts have "(pre = [] \<and> c = a1) \<or> (pre = [a1] \<and> c = b1) \<or> (pre = [a1, b1] \<and> c = c1)"
      by (auto simp: Cons_eq_append_conv)
    with pre c show ?thesis
      by (auto simp: seek_three [OF ns three])
  qed
qed

lemma seek_success_components:
  assumes ns: "params \<noteq> []" "\<not> symbolicToken (hd params)"
    and ret: "seekParameterMap params = Returned p"
    and x: "x \<in> set (Split (last params) CHR '':'')"
  shows "\<exists>n. parseTimeNumber x = Inr n"
proof -
  let ?parts = "Split (last params) CHR '':''"
  consider (three) "length ?parts = 3" | (two) "length ?parts = 2"
    | (other) "length ?parts \<noteq> 3" "length ?parts \<noteq> 2"
    by blast
  then show ?thesis
  proof cases
    case three
    then obtain a b c where parts: "?parts = [a, b, c]" using length3E by blast
    with ret x show ?thesis
      by (auto simp: seek_three [OF ns parts] split: sum.splits)
  next
    case two
    then obtain b c where parts: "?parts = [b, c]" using length2E by blast
    with ret x show ?thesis
      by (auto simp: seek_two [OF ns parts] split: sum.splits)
  next
    case other
    with ns ret show ?thesis by (simp add: seek_other)
  qed
qed

text \<open>
  C4, as the code has it: every component the seek builder consumes (hours,
  minutes and seconds alike) must be accepted by \<open>strconv.Atoi\<close> with a value
  from 0 to 59, or the builder fails. At the first component that does not pass
  (the ones before it having passed), a component that parses to an integer outside
  0..59 fails with the message "A time-number needs to be between 0 and 59, but
  was" followed by the raw string; a component that \<open>strconv.Atoi\<close> rejects fails
  with the error of \<open>strconv.Atoi\<close> itself, which carries the raw string and the
  kind of the failure (syntax or range) and does not mention 0 and 59. So
  \<open>02:75\<close> fails with the range message for 75.
\<close>

theorem seek_time_components:
  "(params \<noteq> [] \<and> \<not> symbolicToken (hd params) \<longrightarrow>
      (\<forall>p. seekParameterMap params = Returned p \<longrightarrow>
          (\<forall>x \<in> set (Split (last params) CHR '':''). \<exists>n. Atoi x = Inr n \<and> 0 \<le> n \<and> n \<le> 59))
    \<and> (length (Split (last params) CHR '':'') = 2 \<or> length (Split (last params) CHR '':'') = 3 \<longrightarrow>
        (\<forall>pre c post. Split (last params) CHR '':'' = pre @ c # post
            \<and> (\<forall>x \<in> set pre. \<exists>k. parseTimeNumber x = Inr k) \<longrightarrow>
            (\<forall>n. Atoi c = Inr n \<and> (n < 0 \<or> 59 < n) \<longrightarrow>
                seekParameterMap params
                = Failed (ErrorString (''A time-number needs to be between 0 and 59, but was '' @ c)))
          \<and> (\<forall>e. Atoi c = Inl e \<longrightarrow>
                seekParameterMap params = Failed e \<and> (\<exists>k. e = NumError ''Atoi'' c k)))))
   \<and> seekParameterMap [''02:75'']
       = Failed (ErrorString ''A time-number needs to be between 0 and 59, but was 75'')"
proof (intro conjI impI allI ballI)
  fix p x
  assume "params \<noteq> [] \<and> \<not> symbolicToken (hd params)" "seekParameterMap params = Returned p"
    "x \<in> set (Split (last params) CHR '':'')"
  then have "\<exists>n. parseTimeNumber x = Inr n"
    using seek_success_components by blast
  then show "\<exists>n. Atoi x = Inr n \<and> 0 \<le> n \<and> n \<le> 59"
    by (simp add: parseTimeNumber_Inr)
next
  fix pre c post n
  assume "params \<noteq> [] \<and> \<not> symbolicToken (hd params)"
    "length (Split (last params) CHR '':'') = 2 \<or> length (Split (last params) CHR '':'') = 3"
    "Split (last params) CHR '':'' = pre @ c # post \<and> (\<forall>x \<in> set pre. \<exists>k. parseTimeNumber x = Inr k)"
    "Atoi c = Inr n \<and> (n < 0 \<or> 59 < n)"
  then show "seekParameterMap params
                = Failed (ErrorString (''A time-number needs to be between 0 and 59, but was '' @ c))"
    using seek_first_failure [of params pre c post] parseTimeNumber_range [of c n] by blast
next
  fix pre c post e
  assume "params \<noteq> [] \<and> \<not> symbolicToken (hd params)"
    "length (Split (last params) CHR '':'') = 2 \<or> length (Split (last params) CHR '':'') = 3"
    "Split (last params) CHR '':'' = pre @ c # post \<and> (\<forall>x \<in> set pre. \<exists>k. parseTimeNumber x = Inr k)"
    "Atoi c = Inl e"
  then show "seekParameterMap params = Failed e"
    using seek_first_failure [of params pre c post e] parseTimeNumber_Atoi_error [of c e] by blast
next
  fix pre c post e
  assume "Atoi c = Inl e"
  then show "\<exists>k. e = NumError ''Atoi'' c k" by (rule Atoi_error)
next
  have "Split ''02:75'' CHR '':'' = [''02'', ''75'']" by simp
  moreover have "parseTimeNumber ''02'' = Inr 2"
    "parseTimeNumber ''75'' = Inl (ErrorString ''A time-number needs to be between 0 and 59, but was 75'')"
    by (simp_all add: parseTimeNumber_def Atoi_def byteDigit_def)
  ultimately show "seekParameterMap [''02:75'']
       = Failed (ErrorString ''A time-number needs to be between 0 and 59, but was 75'')"
    using seek_two [of "[''02:75'']" "''02''" "''75''"] by (simp add: symbolicToken_def)
qed

theorem seek_time_components_witness:
  "[''1:60:00''] \<noteq> [] \<and> \<not> symbolicToken (hd [''1:60:00''])
   \<and> Split (last [''1:60:00'']) CHR '':'' = [''1''] @ ''60'' # [''00'']
   \<and> parseTimeNumber ''1'' = Inr 1 \<and> Atoi ''60'' = Inr 60
   \<and> seekParameterMap [''1:60:00'']
       = Failed (ErrorString ''A time-number needs to be between 0 and 59, but was 60'')
   \<and> Split (last [''5:x'']) CHR '':'' = [''5''] @ ''x'' # []
   \<and> Atoi ''x'' = Inl (NumError ''Atoi'' ''x'' ErrSyntax)
   \<and> seekParameterMap [''5:x''] = Failed (NumError ''Atoi'' ''x'' ErrSyntax)
   \<and> seekParameterMap [''12:34''] = Returned (timePayload 0 12 34)
   \<and> (\<exists>n. Atoi ''34'' = Inr n \<and> 0 \<le> n \<and> n \<le> 59)"
proof -
  have a: "Atoi ''60'' = Inr 60 \<and> ((60::int) < 0 \<or> (59::int) < 60)"
      "Atoi ''x'' = Inl (NumError ''Atoi'' ''x'' ErrSyntax)"
    by (simp_all add: Atoi_def byteDigit_def)
  have p: "\<forall>x \<in> set [''1'']. \<exists>k. parseTimeNumber x = Inr k"
      "\<forall>x \<in> set [''5'']. \<exists>k. parseTimeNumber x = Inr k" "parseTimeNumber ''1'' = Inr 1"
    by (simp_all add: parseTimeNumber_def Atoi_def byteDigit_def)
  have n: "[''1:60:00''] \<noteq> [] \<and> \<not> symbolicToken (hd [''1:60:00''])"
      "[''5:x''] \<noteq> [] \<and> \<not> symbolicToken (hd [''5:x''])"
    by (simp_all add: symbolicToken_def)
  have s: "Split (last [''1:60:00'']) CHR '':'' = [''1''] @ ''60'' # [''00'']"
      "Split (last [''5:x'']) CHR '':'' = [''5''] @ ''x'' # []"
    by simp_all
  have l: "length (Split (last [''1:60:00'']) CHR '':'') = 2 \<or> length (Split (last [''1:60:00'']) CHR '':'') = 3"
      "length (Split (last [''5:x'']) CHR '':'') = 2 \<or> length (Split (last [''5:x'']) CHR '':'') = 3"
    by simp_all
  have 1: "seekParameterMap [''1:60:00'']
       = Failed (ErrorString (''A time-number needs to be between 0 and 59, but was '' @ ''60''))"
    using seek_time_components [of "[''1:60:00'']"] n(1) l(1) s(1) p(1) a(1) by blast
  have 2: "seekParameterMap [''5:x''] = Failed (NumError ''Atoi'' ''x'' ErrSyntax)"
    using seek_time_components [of "[''5:x'']"] n(2) l(2) s(2) p(2) a(2) by blast
  have n3: "[''12:34''] \<noteq> [] \<and> \<not> symbolicToken (hd [''12:34''])"
    by (simp add: symbolicToken_def)
  have "parseTimeNumber ''12'' = Inr 12" "parseTimeNumber ''34'' = Inr 34"
    by (simp_all add: parseTimeNumber_def Atoi_def byteDigit_def)
  then have ret: "seekParameterMap [''12:34''] = Returned (timePayload 0 12 34)"
    using seek_two [of "[''12:34'']" "''12''" "''34''"] n3 by simp
  have mem: "''34'' \<in> set (Split (last [''12:34'']) CHR '':'')"
    by simp
  have 3: "\<exists>n. Atoi ''34'' = Inr n \<and> 0 \<le> n \<and> n \<le> 59"
    using seek_time_components [of "[''12:34'']"] n3 ret mem by blast
  show ?thesis
    using 1 2 3 ret n(1) s a p(3) by simp
qed

text \<open>
  C4 as stated fails for a non-numeric component: for the token \<open>ab:10\<close> the
  builder returns the error of \<open>strconv.Atoi\<close> (rendered by Go as
  \<^verbatim>\<open>strconv.Atoi: parsing "ab": invalid syntax\<close>), not a message with the
  range.
\<close>

theorem seek_non_numeric_counterexample:
  "seekParameterMap [''ab:10''] = Failed (NumError ''Atoi'' ''ab'' ErrSyntax)
   \<and> seekParameterMap [''ab:10'']
       \<noteq> Failed (ErrorString (''A time-number needs to be between 0 and 59, but was '' @ ''ab''))"
proof -
  have "Split ''ab:10'' CHR '':'' = [''ab'', ''10'']" by simp
  moreover have "parseTimeNumber ''ab'' = Inl (NumError ''Atoi'' ''ab'' ErrSyntax)"
    by (simp add: parseTimeNumber_def Atoi_def byteDigit_def)
  ultimately have "seekParameterMap [''ab:10''] = Failed (NumError ''Atoi'' ''ab'' ErrSyntax)"
    using seek_two [of "[''ab:10'']" "''ab''" "''10''"] by (simp add: symbolicToken_def)
  then show ?thesis by simp
qed

section \<open>Properties of the dispatcher\<close>

lemma sendRequest_sent:
  "snd (sendRequest ex host port js)
   = (case ex of NewRequestFails e \<Rightarrow> [] | _ \<Rightarrow> [postedRequest host port js])"
  by (simp add: sendRequest_def postedRequest_def Let_def split: exchange.splits)

lemma sendLoop_error:
  "i < repeatCount \<Longrightarrow>
   fst (sendLoop net host port cmd i repeatCount err sent)
   = fst (sendRequest (net (nat (repeatCount - 1))) host port cmd)"
proof (induction net host port cmd i repeatCount err sent rule: sendLoop.induct)
  case (1 net host port cmd i repeatCount err sent)
  obtain err' reqs where step: "sendRequest (net (nat i)) host port cmd = (err', reqs)"
    by (cases "sendRequest (net (nat i)) host port cmd")
  show ?case
  proof (cases "i + 1 < repeatCount")
    case True
    with 1 step show ?thesis
      by (subst sendLoop.simps) simp
  next
    case False
    with 1(2) have last: "repeatCount - 1 = i" by simp
    have "sendLoop net host port cmd (i + 1) repeatCount err' (sent @ reqs) = (err', sent @ reqs)"
      using False by (subst sendLoop.simps) simp
    with 1(2) step last show ?thesis
      by (subst sendLoop.simps) simp
  qed
qed

lemma sendLoop_not_entered:
  "\<not> i < repeatCount \<Longrightarrow> sendLoop net host port cmd i repeatCount err sent = (err, sent)"
  by (subst sendLoop.simps) simp

lemma sendLoop_sent:
  "reachable net \<Longrightarrow>
   snd (sendLoop net host port cmd i repeatCount err sent)
   = sent @ replicate (nat (repeatCount - i)) (postedRequest host port cmd)"
proof (induction net host port cmd i repeatCount err sent rule: sendLoop.induct)
  case (1 net host port cmd i repeatCount err sent)
  show ?case
  proof (cases "i < repeatCount")
    case False
    then show ?thesis by (simp add: sendLoop_not_entered)
  next
    case True
    obtain err' reqs where step: "sendRequest (net (nat i)) host port cmd = (err', reqs)"
      by (cases "sendRequest (net (nat i)) host port cmd")
    have "reqs = snd (sendRequest (net (nat i)) host port cmd)" using step by simp
    also have "\<dots> = [postedRequest host port cmd]"
      using 1(2) by (cases "net (nat i)") (simp_all add: sendRequest_sent reachable_def)
    finally have reqs: "reqs = [postedRequest host port cmd]" .
    have n: "nat (repeatCount - i) = Suc (nat (repeatCount - (i + 1)))"
      using True by simp
    show ?thesis
      using 1(1) [OF True step [symmetric] refl 1(2)] True step reqs
      by (subst sendLoop.simps) (simp add: n)
  qed
qed

lemma sendLoop_bodies:
  "r \<in> set (snd (sendLoop net host port cmd i repeatCount err sent))
   \<Longrightarrow> r \<in> set sent \<or> r = postedRequest host port cmd"
proof (induction net host port cmd i repeatCount err sent rule: sendLoop.induct)
  case (1 net host port cmd i repeatCount err sent)
  show ?case
  proof (cases "i < repeatCount")
    case False
    with 1(2) show ?thesis by (simp add: sendLoop_not_entered)
  next
    case True
    obtain err' reqs where step: "sendRequest (net (nat i)) host port cmd = (err', reqs)"
      by (cases "sendRequest (net (nat i)) host port cmd")
    have "reqs = snd (sendRequest (net (nat i)) host port cmd)" using step by simp
    then have reqs: "set reqs \<subseteq> {postedRequest host port cmd}"
      by (cases "net (nat i)") (simp_all add: sendRequest_sent)
    have "r \<in> set (snd (sendLoop net host port cmd (i + 1) repeatCount err' (sent @ reqs)))"
      using 1(2) True step by (subst (asm) sendLoop.simps) simp
    then have "r \<in> set (sent @ reqs) \<or> r = postedRequest host port cmd"
      using 1(1) [OF True step [symmetric] refl] by blast
    with reqs show ?thesis by auto
  qed
qed

lemma getRepeatCount_positive: "1 \<le> fst (getRepeatCount action params)"
  by (simp add: getRepeatCount_def split: sum.splits)

lemma getRepeatCount_directional:
  assumes "directional action" "params \<noteq> []"
  shows "getRepeatCount action params =
     (case Atoi (last params) of
        Inl err \<Rightarrow> (1, params)
      | Inr num \<Rightarrow> if num < 1 then (1, params) else (num, butlast params))"
proof -
  have "params ! (length params - 1) = last params"
    using assms(2) by (simp add: last_conv_nth)
  moreover have "take (length params - 1) params = butlast params"
    by (simp add: butlast_conv_take)
  moreover have "action = ''down'' \<or> action = ''up'' \<or> action = ''left'' \<or> action = ''right''"
    using assms(1) by (auto simp: directional_def)
  ultimately show ?thesis
    using assms(2) by (simp add: getRepeatCount_def split: sum.splits)
qed

lemma getRepeatCount_unchanged:
  "\<not> directional action \<or> params = [] \<Longrightarrow> getRepeatCount action params = (1, params)"
  by (auto simp: getRepeatCount_def directional_def)

lemma ExecuteCommand_sent:
  assumes "reachable net"
    and "createJsonCommand action (snd (getRepeatCount action params)) = Returned js"
  shows "snd (ExecuteCommand net config action params)
         = replicate (nat (fst (getRepeatCount action params)))
             (postedRequest (Host config) (Port config) js)"
proof -
  obtain n ps where g: "getRepeatCount action params = (n, ps)"
    by (cases "getRepeatCount action params")
  obtain err sent where l: "sendLoop net (Host config) (Port config) js 0 n None [] = (err, sent)"
    by (cases "sendLoop net (Host config) (Port config) js 0 n None []")
  have "sent = snd (sendLoop net (Host config) (Port config) js 0 n None [])"
    using l by simp
  also have "\<dots> = replicate (nat n) (postedRequest (Host config) (Port config) js)"
    using sendLoop_sent [OF assms(1), of "Host config" "Port config" js 0 n None "[]"] by simp
  finally show ?thesis
    using assms(2) g l by (simp add: ExecuteCommand_def split: option.splits)
qed

lemma ExecuteCommand_result:
  assumes "createJsonCommand action (snd (getRepeatCount action params)) = Returned js"
  shows "fst (ExecuteCommand net config action params)
         = (case fst (sendRequest (net (nat (fst (getRepeatCount action params) - 1)))
                        (Host config) (Port config) js) of
              None \<Rightarrow> Returned ()
            | Some e \<Rightarrow> Failed e)"
proof -
  obtain n ps where g: "getRepeatCount action params = (n, ps)"
    by (cases "getRepeatCount action params")
  have n: "0 < n" using getRepeatCount_positive [of action params] g by simp
  obtain err sent where l: "sendLoop net (Host config) (Port config) js 0 n None [] = (err, sent)"
    by (cases "sendLoop net (Host config) (Port config) js 0 n None []")
  have "err = fst (sendLoop net (Host config) (Port config) js 0 n None [])"
    using l by simp
  also have "\<dots> = fst (sendRequest (net (nat (n - 1))) (Host config) (Port config) js)"
    using n by (rule sendLoop_error)
  finally show ?thesis
    using assms g l by (simp add: ExecuteCommand_def split: option.splits)
qed

lemma ExecuteCommand_not_built:
  "createJsonCommand action (snd (getRepeatCount action params)) = Failed e
   \<Longrightarrow> ExecuteCommand net config action params = (Failed e, [])"
  by (cases "getRepeatCount action params") (simp add: ExecuteCommand_def)

text \<open>
  C5: for the actions up, down, left and right with a non-empty token list, a
  last token that \<open>strconv.Atoi\<close> parses to an integer of at least 1 is removed
  and is the repeat count; otherwise the count is 1 and the list is unchanged. For
  every other action (and for an empty list) the count is 1 and the list is
  unchanged. \<open>ExecuteCommand\<close> builds the command from the list that
  \<open>getRepeatCount\<close> leaves and, on a network where every call posts, sends as
  many requests as the count says.
\<close>

theorem repeat_count_resolution:
  "(directional action \<and> params \<noteq> [] \<longrightarrow>
      (\<forall>n. Atoi (last params) = Inr n \<and> 1 \<le> n \<longrightarrow>
          getRepeatCount action params = (n, butlast params))
    \<and> ((\<forall>n. Atoi (last params) = Inr n \<longrightarrow> n < 1) \<longrightarrow>
          getRepeatCount action params = (1, params)))
   \<and> (\<not> directional action \<or> params = [] \<longrightarrow> getRepeatCount action params = (1, params))
   \<and> (\<forall>js. reachable net
          \<and> createJsonCommand action (snd (getRepeatCount action params)) = Returned js \<longrightarrow>
          snd (ExecuteCommand net config action params)
          = replicate (nat (fst (getRepeatCount action params)))
              (postedRequest (Host config) (Port config) js))
   \<and> (\<forall>e. createJsonCommand action (snd (getRepeatCount action params)) = Failed e \<longrightarrow>
          ExecuteCommand net config action params = (Failed e, []))"
proof (intro conjI impI allI)
  fix n
  assume "directional action \<and> params \<noteq> []" "Atoi (last params) = Inr n \<and> 1 \<le> n"
  then show "getRepeatCount action params = (n, butlast params)"
    by (simp add: getRepeatCount_directional)
next
  assume "directional action \<and> params \<noteq> []" "\<forall>n. Atoi (last params) = Inr n \<longrightarrow> n < 1"
  then show "getRepeatCount action params = (1, params)"
    by (cases "Atoi (last params)") (simp_all add: getRepeatCount_directional)
next
  assume "\<not> directional action \<or> params = []"
  then show "getRepeatCount action params = (1, params)"
    by (rule getRepeatCount_unchanged)
next
  fix js
  assume "reachable net
          \<and> createJsonCommand action (snd (getRepeatCount action params)) = Returned js"
  then show "snd (ExecuteCommand net config action params)
          = replicate (nat (fst (getRepeatCount action params)))
              (postedRequest (Host config) (Port config) js)"
    by (simp add: ExecuteCommand_sent)
next
  fix e
  assume "createJsonCommand action (snd (getRepeatCount action params)) = Failed e"
  then show "ExecuteCommand net config action params = (Failed e, [])"
    by (rule ExecuteCommand_not_built)
qed

lemma createJsonCommand_left:
  "createJsonCommand ''left'' ps
   = Returned [(''jsonrpc'', JString ''2.0''), (''method'', JString ''Input.Left''), (''id'', JNumber 1)]"
  by (simp add: createJsonCommand_def mapIndex_def CommandMap_def CommandTable_def mkCommand_def
      noParameterMap_def SetValues_def zeroCommandRequest_def Marshal_def)

theorem repeat_count_resolution_witness:
  \<open>directional ''left'' \<and> [''5''] \<noteq> [] \<and> Atoi (last [''5'']) = Inr 5
   \<and> getRepeatCount ''left'' [''5''] = (5, [])
   \<and> getRepeatCount ''left'' [''notanumber''] = (1, [''notanumber''])
   \<and> \<not> directional ''seek'' \<and> getRepeatCount ''seek'' [''5''] = (1, [''5''])
   \<and> reachable (\<lambda>i. Body successBody)
   \<and> snd (ExecuteCommand (\<lambda>i. Body successBody) \<lparr>Host = ''kodi'', Port = ''8080''\<rparr> ''left'' [''5''])
      = replicate 5 (postedRequest ''kodi'' ''8080''
          [(''jsonrpc'', JString ''2.0''), (''method'', JString ''Input.Left''), (''id'', JNumber 1)])
   \<and> ExecuteCommand (\<lambda>i. Body successBody) \<lparr>Host = ''kodi'', Port = ''8080''\<rparr> ''seek'' []
      = (Failed (ErrorString ''Not enough parameters. See "help seek" for usage information.''), [])\<close>
proof -
  have d: "directional ''left'' \<and> [''5''] \<noteq> []" "directional ''left'' \<and> [''notanumber''] \<noteq> []"
      "\<not> directional ''seek'' \<or> [''5''] = []"
    by (simp_all add: directional_def)
  have a: "Atoi (last [''5'']) = Inr 5 \<and> (1::int) \<le> 5"
      "\<forall>n. Atoi (last [''notanumber'']) = Inr n \<longrightarrow> n < 1"
    by (simp_all add: Atoi_def byteDigit_def)
  have r: "reachable (\<lambda>i. Body successBody)"
    by (simp add: reachable_def)
  have 1: "getRepeatCount ''left'' [''5''] = (5, butlast [''5''])"
    using repeat_count_resolution [of "''left''" "[''5'']"] d(1) a(1) by blast
  have 2: "getRepeatCount ''left'' [''notanumber''] = (1, [''notanumber''])"
    using repeat_count_resolution [of "''left''" "[''notanumber'']"] d(2) a(2) by blast
  have 3: "getRepeatCount ''seek'' [''5''] = (1, [''5''])"
    using repeat_count_resolution [of "''seek''" "[''5'']"] d(3) by blast
  have 4: "snd (ExecuteCommand (\<lambda>i. Body successBody) \<lparr>Host = ''kodi'', Port = ''8080''\<rparr> ''left'' [''5''])
      = replicate (nat (fst (getRepeatCount ''left'' [''5''])))
          (postedRequest (Host \<lparr>Host = ''kodi'', Port = ''8080''\<rparr>) (Port \<lparr>Host = ''kodi'', Port = ''8080''\<rparr>)
          [(''jsonrpc'', JString ''2.0''), (''method'', JString ''Input.Left''), (''id'', JNumber 1)])"
    using repeat_count_resolution [of "''left''" "[''5'']" "\<lambda>i. Body successBody"] r
      createJsonCommand_left by blast
  have \<open>createJsonCommand ''seek'' (snd (getRepeatCount ''seek'' []))
      = Failed (ErrorString ''Not enough parameters. See "help seek" for usage information.'')\<close>
    by (simp add: getRepeatCount_def createJsonCommand_def mapIndex_def CommandMap_def
        CommandTable_def mkCommand_def seekParameterMap_def)
  then have 5: \<open>ExecuteCommand (\<lambda>i. Body successBody) \<lparr>Host = ''kodi'', Port = ''8080''\<rparr> ''seek'' []
      = (Failed (ErrorString ''Not enough parameters. See "help seek" for usage information.''), [])\<close>
    using repeat_count_resolution [of "''seek''" "[]" "\<lambda>i. Body successBody"
        "\<lparr>Host = ''kodi'', Port = ''8080''\<rparr>"]
    by blast
  have n: "nat 5 = 5" by simp
  show ?thesis
    using 1 2 3 4 5 d a(1) r by (simp add: n)
qed

section \<open>Properties of responses and requests\<close>

lemma Unmarshal_invalidParamsBody:
  "Unmarshal invalidParamsBody zeroErrorResponse =
     \<lparr>resp_Error =
        \<lparr>error_Code = 402,
         error_Data =
           \<lparr>data_Message = ''Invalid params'', data_Method = [],
            data_Stack = \<lparr>stack_Name = ''title'', stack_Type = ''string'', stack_Message = []\<rparr>\<rparr>,
         error_Message = []\<rparr>,
      resp_ID = 1, resp_JsonRPC = ''2.0''\<rparr>"
  by (simp add: Unmarshal_def UnmarshalError_def UnmarshalData_def UnmarshalStack_def store_def
      invalidParamsBody_def zeroErrorResponse_def zeroError_def zeroData_def zeroStack_def)

lemma createJsonError_invalidParamsBody:
  \<open>createJsonError (Unmarshal invalidParamsBody zeroErrorResponse)
   = ErrorString ''Invalid params parameter "title" of type "string"''\<close>
  by (simp add: Unmarshal_invalidParamsBody createJsonError_def)

lemma sendRequest_invalidParamsBody:
  \<open>sendRequest (Body invalidParamsBody) host port js
   = (Some (ErrorString ''Invalid params parameter "title" of type "string"''),
      [postedRequest host port js])\<close>
  using createJsonError_invalidParamsBody
  by (simp add: sendRequest_def Unmarshal_invalidParamsBody postedRequest_def)

lemma sendRequest_noErrorBody:
  assumes "noErrorBody b"
  shows "sendRequest (Body b) host port js = (None, [postedRequest host port js])"
proof -
  have "error_Code (resp_Error (Unmarshal b zeroErrorResponse)) = 0"
    using assms
    by (auto simp: noErrorBody_def Unmarshal_def UnmarshalError_def store_def
        zeroErrorResponse_def zeroError_def split: option.splits)
  then show ?thesis
    by (simp add: sendRequest_def postedRequest_def)
qed

lemma createJsonCommand_up:
  "createJsonCommand ''up'' ps
   = Returned [(''jsonrpc'', JString ''2.0''), (''method'', JString ''Input.Up''), (''id'', JNumber 1)]"
  by (simp add: createJsonCommand_def mapIndex_def CommandMap_def CommandTable_def mkCommand_def
      noParameterMap_def SetValues_def zeroCommandRequest_def Marshal_def)

text \<open>
  C1 (the claim: a non-zero error code in the response of some repeat aborts the
  remaining repeats and is reported). The loop of \<open>ExecuteCommand\<close> assigns the
  result of every \<open>sendRequest\<close> to \<open>err\<close> and goes on, so only the last
  repeat's result is returned (\<open>ExecuteCommand_result\<close>). For \<open>up 3\<close>, when
  the first response carries the error 402 and the next two are fine, all three
  requests are sent and \<open>ExecuteCommand\<close> returns no error, although
  \<open>sendRequest\<close> reported the first one.
\<close>

theorem ExecuteCommand_error_overwritten:
  \<open>ExecuteCommand (\<lambda>i. if i = 0 then Body invalidParamsBody else Body successBody)
      \<lparr>Host = ''kodi'', Port = ''8080''\<rparr> ''up'' [''3'']
    = (Returned (),
       replicate 3 (postedRequest ''kodi'' ''8080''
         [(''jsonrpc'', JString ''2.0''), (''method'', JString ''Input.Up''), (''id'', JNumber 1)]))
   \<and> sendRequest (Body invalidParamsBody) ''kodi'' ''8080''
         [(''jsonrpc'', JString ''2.0''), (''method'', JString ''Input.Up''), (''id'', JNumber 1)]
      = (Some (ErrorString ''Invalid params parameter "title" of type "string"''),
         [postedRequest ''kodi'' ''8080''
           [(''jsonrpc'', JString ''2.0''), (''method'', JString ''Input.Up''), (''id'', JNumber 1)]])\<close>
proof -
  let ?net = "\<lambda>i::nat. if i = 0 then Body invalidParamsBody else Body successBody"
  let ?cfg = "\<lparr>Host = ''kodi'', Port = ''8080''\<rparr>"
  let ?js = "[(''jsonrpc'', JString ''2.0''), (''method'', JString ''Input.Up''), (''id'', JNumber 1)]"
  have g: "getRepeatCount ''up'' [''3''] = (3, [])"
    by (simp add: getRepeatCount_def Atoi_def byteDigit_def)
  have c: "createJsonCommand ''up'' (snd (getRepeatCount ''up'' [''3''])) = Returned ?js"
    by (rule createJsonCommand_up)
  have r: "reachable ?net" by (simp add: reachable_def)
  have ok: "noErrorBody successBody" by (simp add: noErrorBody_def successBody_def)
  have "fst (ExecuteCommand ?net ?cfg ''up'' [''3'']) = Returned ()"
    using ExecuteCommand_result [OF c, of ?net ?cfg] sendRequest_noErrorBody [OF ok]
    by (simp add: g)
  moreover have "snd (ExecuteCommand ?net ?cfg ''up'' [''3''])
      = replicate 3 (postedRequest ''kodi'' ''8080'' ?js)"
    using ExecuteCommand_sent [OF r c, of ?cfg] by (simp add: g)
  ultimately have "ExecuteCommand ?net ?cfg ''up'' [''3'']
      = (Returned (), replicate 3 (postedRequest ''kodi'' ''8080'' ?js))"
    by (simp add: prod_eq_iff)
  then show ?thesis
    using sendRequest_invalidParamsBody [of "''kodi''" "''8080''" ?js] by simp
qed

lemma sendLoop_step:
  assumes "i < repeatCount" "sendRequest (net (nat i)) host port js = (e, reqs)"
  shows "sendLoop net host port js i repeatCount err sent
         = sendLoop net host port js (i + 1) repeatCount e (sent @ reqs)"
  using assms by (subst sendLoop.simps) simp

text \<open>
  C8: a decoded response whose error member is absent, or whose error code is 0,
  is a success: \<open>sendRequest\<close> returns no error for it, the loop goes on to the
  next repeat, and when every response is of this kind \<open>ExecuteCommand\<close> returns
  no error after sending every repeat.
\<close>

theorem zero_code_is_success:
  "(noErrorBody b \<longrightarrow>
      sendRequest (Body b) host port js = (None, [postedRequest host port js]))
   \<and> (noErrorBody b \<and> i < repeatCount \<and> net (nat i) = Body b \<longrightarrow>
        sendLoop net host port js i repeatCount err sent
        = sendLoop net host port js (i + 1) repeatCount None (sent @ [postedRequest host port js]))
   \<and> ((\<forall>k. \<exists>b. net k = Body b \<and> noErrorBody b) \<longrightarrow>
        (\<forall>cmd. createJsonCommand action (snd (getRepeatCount action params)) = Returned cmd \<longrightarrow>
           ExecuteCommand net config action params
           = (Returned (),
              replicate (nat (fst (getRepeatCount action params)))
                (postedRequest (Host config) (Port config) cmd))))
   \<and> noErrorBody successBody \<and> noErrorBody zeroCodeBody"
proof (intro conjI impI allI)
  assume "noErrorBody b"
  then show "sendRequest (Body b) host port js = (None, [postedRequest host port js])"
    by (rule sendRequest_noErrorBody)
next
  assume "noErrorBody b \<and> i < repeatCount \<and> net (nat i) = Body b"
  then show "sendLoop net host port js i repeatCount err sent
        = sendLoop net host port js (i + 1) repeatCount None (sent @ [postedRequest host port js])"
    using sendRequest_noErrorBody [of b host port js] by (simp add: sendLoop_step)
next
  fix cmd
  assume all: "\<forall>k. \<exists>b. net k = Body b \<and> noErrorBody b"
    and c: "createJsonCommand action (snd (getRepeatCount action params)) = Returned cmd"
  have r: "reachable net"
    unfolding reachable_def
  proof (intro allI)
    fix i e
    from all obtain b where "net i = Body b" by blast
    then show "net i \<noteq> NewRequestFails e" by simp
  qed
  have "\<And>k. fst (sendRequest (net k) (Host config) (Port config) cmd) = None"
  proof -
    fix k
    from all obtain b where "net k = Body b" "noErrorBody b" by blast
    then show "fst (sendRequest (net k) (Host config) (Port config) cmd) = None"
      by (simp add: sendRequest_noErrorBody)
  qed
  then have "fst (ExecuteCommand net config action params) = Returned ()"
    by (simp add: ExecuteCommand_result [OF c])
  moreover have "snd (ExecuteCommand net config action params)
      = replicate (nat (fst (getRepeatCount action params)))
          (postedRequest (Host config) (Port config) cmd)"
    using r c by (rule ExecuteCommand_sent)
  ultimately show "ExecuteCommand net config action params
           = (Returned (),
              replicate (nat (fst (getRepeatCount action params)))
                (postedRequest (Host config) (Port config) cmd))"
    by (simp add: prod_eq_iff)
next
  show "noErrorBody successBody" by (simp add: noErrorBody_def successBody_def)
  show "noErrorBody zeroCodeBody" by (simp add: noErrorBody_def zeroCodeBody_def)
qed

theorem zero_code_is_success_witness:
  "noErrorBody zeroCodeBody
   \<and> sendLoop (\<lambda>k. Body zeroCodeBody) ''kodi'' ''8080'' [] 0 1 (Some (LibraryError ''before'')) []
      = sendLoop (\<lambda>k. Body zeroCodeBody) ''kodi'' ''8080'' [] (0 + 1) 1 None
          ([] @ [postedRequest ''kodi'' ''8080'' []])
   \<and> sendRequest (Body zeroCodeBody) ''kodi'' ''8080'' [] = (None, [postedRequest ''kodi'' ''8080'' []])
   \<and> sendRequest (Body successBody) ''kodi'' ''8080'' [] = (None, [postedRequest ''kodi'' ''8080'' []])
   \<and> ExecuteCommand (\<lambda>k. if even k then Body successBody else Body zeroCodeBody)
        \<lparr>Host = ''kodi'', Port = ''8080''\<rparr> ''up'' [''3'']
      = (Returned (),
         replicate 3 (postedRequest ''kodi'' ''8080''
           [(''jsonrpc'', JString ''2.0''), (''method'', JString ''Input.Up''), (''id'', JNumber 1)]))"
proof -
  let ?net = "\<lambda>k::nat. if even k then Body successBody else Body zeroCodeBody"
  let ?cfg = "\<lparr>Host = ''kodi'', Port = ''8080''\<rparr>"
  have b: "noErrorBody successBody" "noErrorBody zeroCodeBody"
    using zero_code_is_success [of successBody] by blast+
  have all: "\<forall>k. \<exists>b. ?net k = Body b \<and> noErrorBody b"
    using b by simp
  have g: "getRepeatCount ''up'' [''3''] = (3, [])"
    by (simp add: getRepeatCount_def Atoi_def byteDigit_def)
  have c: "createJsonCommand ''up'' (snd (getRepeatCount ''up'' [''3'']))
      = Returned [(''jsonrpc'', JString ''2.0''), (''method'', JString ''Input.Up''), (''id'', JNumber 1)]"
    by (rule createJsonCommand_up)
  have 1: "sendRequest (Body zeroCodeBody) ''kodi'' ''8080'' [] = (None, [postedRequest ''kodi'' ''8080'' []])"
    using zero_code_is_success [of zeroCodeBody "''kodi''" "''8080''" "[]"] b(2) by blast
  have 2: "sendRequest (Body successBody) ''kodi'' ''8080'' [] = (None, [postedRequest ''kodi'' ''8080'' []])"
    using zero_code_is_success [of successBody "''kodi''" "''8080''" "[]"] b(1) by blast
  have 3: "ExecuteCommand ?net ?cfg ''up'' [''3'']
      = (Returned (),
         replicate (nat (fst (getRepeatCount ''up'' [''3''])))
           (postedRequest (Host ?cfg) (Port ?cfg)
           [(''jsonrpc'', JString ''2.0''), (''method'', JString ''Input.Up''), (''id'', JNumber 1)]))"
    using zero_code_is_success [of successBody "''kodi''" "''8080''" "[]" 0 0 ?net None "[]" "''up''" "[''3'']" ?cfg]
      all c by blast
  have "noErrorBody zeroCodeBody \<and> (0::int) < 1 \<and> (\<lambda>k::nat. Body zeroCodeBody) (nat 0) = Body zeroCodeBody"
    using b(2) by simp
  then have 4: "sendLoop (\<lambda>k. Body zeroCodeBody) ''kodi'' ''8080'' [] 0 1 (Some (LibraryError ''before'')) []
      = sendLoop (\<lambda>k. Body zeroCodeBody) ''kodi'' ''8080'' [] (0 + 1) 1 None
          ([] @ [postedRequest ''kodi'' ''8080'' []])"
    using zero_code_is_success [of zeroCodeBody "''kodi''" "''8080''" "[]" 0 1 "\<lambda>k. Body zeroCodeBody"
        "Some (LibraryError ''before'')" "[]"]
    by blast
  have n: "nat 3 = 3" by simp
  show ?thesis using b(2) 1 2 3 4 by (simp add: g n)
qed

lemma createJsonError_composed:
  "createJsonError r =
     ErrorString (composedMessage
       (data_Message (error_Data (resp_Error r)))
       (stack_Message (data_Stack (error_Data (resp_Error r))))
       (stack_Name (data_Stack (error_Data (resp_Error r))))
       (stack_Type (data_Stack (error_Data (resp_Error r)))))"
  by (simp add: createJsonError_def composedMessage_def Let_def)

lemma sendRequest_error_code:
  assumes "error_Code (resp_Error (Unmarshal b zeroErrorResponse)) \<noteq> 0"
  shows "sendRequest (Body b) host port js
         = (Some (createJsonError (Unmarshal b zeroErrorResponse)), [postedRequest host port js])"
  using assms by (simp add: sendRequest_def postedRequest_def)

text \<open>
  C2, as the code has it: the message of a response with a non-zero code is the
  concatenation, in this order, of the data message followed by a space, the stack
  message followed by \<open>" regarding "\<close>, the text \<open>parameter\<close> with the stack
  name in double quotes followed by a space, and the text \<open>of type\<close> with the
  stack type in double quotes, each segment left out when its field is empty. The
  word "regarding" belongs to the stack message's segment: the error with
  \<open>data.message = "Invalid params"\<close>, \<open>stack.name = "title"\<close>,
  \<open>stack.type = "string"\<close> and no stack message composes
  \<^verbatim>\<open>Invalid params parameter "title" of type "string"\<close>.
\<close>

theorem remote_error_message:
  \<open>createJsonError r =
     ErrorString (composedMessage
       (data_Message (error_Data (resp_Error r)))
       (stack_Message (data_Stack (error_Data (resp_Error r))))
       (stack_Name (data_Stack (error_Data (resp_Error r))))
       (stack_Type (data_Stack (error_Data (resp_Error r)))))
   \<and> (error_Code (resp_Error (Unmarshal b zeroErrorResponse)) \<noteq> 0 \<longrightarrow>
        sendRequest (Body b) host port js
        = (Some (createJsonError (Unmarshal b zeroErrorResponse)), [postedRequest host port js]))
   \<and> createJsonError (Unmarshal invalidParamsBody zeroErrorResponse)
       = ErrorString ''Invalid params parameter "title" of type "string"''\<close>
  using createJsonError_composed sendRequest_error_code createJsonError_invalidParamsBody
  by blast

theorem remote_error_message_witness:
  \<open>error_Code (resp_Error (Unmarshal invalidParamsBody zeroErrorResponse)) = 402
   \<and> sendRequest (Body invalidParamsBody) ''kodi'' ''8080'' []
       = (Some (ErrorString ''Invalid params parameter "title" of type "string"''),
          [postedRequest ''kodi'' ''8080'' []])
   \<and> composedMessage ''Invalid params'' ''Wrong type'' ''title'' ''string''
       = ''Invalid params Wrong type regarding parameter "title" of type "string"''\<close>
proof -
  have c: "error_Code (resp_Error (Unmarshal invalidParamsBody zeroErrorResponse)) = 402"
    by (simp add: Unmarshal_invalidParamsBody)
  then have ne: "error_Code (resp_Error (Unmarshal invalidParamsBody zeroErrorResponse)) \<noteq> 0"
    by simp
  note t = remote_error_message [of "Unmarshal invalidParamsBody zeroErrorResponse"
      invalidParamsBody "''kodi''" "''8080''" "[]"]
  have s: "sendRequest (Body invalidParamsBody) ''kodi'' ''8080'' []
       = (Some (createJsonError (Unmarshal invalidParamsBody zeroErrorResponse)),
          [postedRequest ''kodi'' ''8080'' []])"
    using t ne by blast
  have m: \<open>createJsonError (Unmarshal invalidParamsBody zeroErrorResponse)
       = ErrorString ''Invalid params parameter "title" of type "string"''\<close>
    using t by blast
  show ?thesis
    using c s m by (simp add: composedMessage_def)
qed

text \<open>
  C2 as stated fails at its own example: the message composed for it is not
  \<^verbatim>\<open>Invalid params regarding parameter "title" of type "string"\<close>; no stack
  message at all composes that text (\<open>claimed_message_never_composed\<close> below).
\<close>

theorem remote_error_message_counterexample:
  \<open>createJsonError (Unmarshal invalidParamsBody zeroErrorResponse)
   \<noteq> ErrorString ''Invalid params regarding parameter "title" of type "string"''\<close>
  by (simp add: createJsonError_invalidParamsBody)

lemma claimed_message_never_composed:
  \<open>composedMessage ''Invalid params'' stackMessage ''title'' ''string''
   \<noteq> ''Invalid params regarding parameter "title" of type "string"''\<close>
proof (cases "stackMessage = []")
  case True
  then show ?thesis by (simp add: composedMessage_def)
next
  case False
  show ?thesis
  proof
    assume \<open>composedMessage ''Invalid params'' stackMessage ''title'' ''string''
      = ''Invalid params regarding parameter "title" of type "string"''\<close>
    then have \<open>length (composedMessage ''Invalid params'' stackMessage ''title'' ''string'')
      = length ''Invalid params regarding parameter "title" of type "string"''\<close>
      by (rule arg_cong)
    then show False
      using False by (simp add: composedMessage_def)
  qed
qed

lemma createJsonCommand_Returned:
  assumes "createJsonCommand action params = Returned js"
  shows "\<exists>c p. CommandMap action = Some c \<and> CreateParameterMap c params = Returned p
     \<and> js = [(''jsonrpc'', JString ''2.0''), (''method'', JString (KodiName c))]
            @ (if p = Map.empty then [] else [(''params'', JObject p)])
            @ [(''id'', JNumber 1)]"
  using assms
  by (auto simp: createJsonCommand_def mapIndex_def Marshal_def SetValues_def zeroCommandRequest_def
      split: option.splits outcome.splits if_splits)

text \<open>
  C7: every serialised request has the member \<open>jsonrpc\<close> with the string
  \<open>2.0\<close>, the member \<open>method\<close> with the remote method of the command looked
  up, and the member \<open>id\<close> with the number 1; when the builder returns the empty
  payload there is no member \<open>params\<close> at all (neither an empty object nor
  null), otherwise \<open>params\<close> is the payload. Every request that
  \<open>ExecuteCommand\<close> sends carries this serialised command.
\<close>

theorem request_envelope:
  "(createJsonCommand action params = Returned js \<longrightarrow>
      (\<exists>c p. CommandMap action = Some c \<and> CreateParameterMap c params = Returned p
         \<and> map_of js ''jsonrpc'' = Some (JString ''2.0'')
         \<and> map_of js ''method'' = Some (JString (KodiName c))
         \<and> map_of js ''id'' = Some (JNumber 1)
         \<and> map fst js = (if p = Map.empty then [''jsonrpc'', ''method'', ''id'']
                          else [''jsonrpc'', ''method'', ''params'', ''id''])
         \<and> map_of js ''params'' = (if p = Map.empty then None else Some (JObject p))))
   \<and> (\<forall>r \<in> set (snd (ExecuteCommand net config action params)).
        \<exists>cmd. createJsonCommand action (snd (getRepeatCount action params)) = Returned cmd
           \<and> r = postedRequest (Host config) (Port config) cmd)"
proof (intro conjI impI ballI)
  assume "createJsonCommand action params = Returned js"
  then obtain c p where "CommandMap action = Some c" "CreateParameterMap c params = Returned p"
     "js = [(''jsonrpc'', JString ''2.0''), (''method'', JString (KodiName c))]
            @ (if p = Map.empty then [] else [(''params'', JObject p)])
            @ [(''id'', JNumber 1)]"
    using createJsonCommand_Returned by blast
  then show "\<exists>c p. CommandMap action = Some c \<and> CreateParameterMap c params = Returned p
         \<and> map_of js ''jsonrpc'' = Some (JString ''2.0'')
         \<and> map_of js ''method'' = Some (JString (KodiName c))
         \<and> map_of js ''id'' = Some (JNumber 1)
         \<and> map fst js = (if p = Map.empty then [''jsonrpc'', ''method'', ''id'']
                          else [''jsonrpc'', ''method'', ''params'', ''id''])
         \<and> map_of js ''params'' = (if p = Map.empty then None else Some (JObject p))"
    by (intro exI [of _ c] exI [of _ p]) simp
next
  fix r
  assume r: "r \<in> set (snd (ExecuteCommand net config action params))"
  obtain n ps where g: "getRepeatCount action params = (n, ps)"
    by (cases "getRepeatCount action params")
  show "\<exists>cmd. createJsonCommand action (snd (getRepeatCount action params)) = Returned cmd
           \<and> r = postedRequest (Host config) (Port config) cmd"
  proof (cases "createJsonCommand action ps")
    case (Panicked x)
    with r g show ?thesis by (simp add: ExecuteCommand_def)
  next
    case (Failed x)
    with r g show ?thesis by (simp add: ExecuteCommand_def)
  next
    case (Returned cmd)
    obtain err sent where l: "sendLoop net (Host config) (Port config) cmd 0 n None [] = (err, sent)"
      by (cases "sendLoop net (Host config) (Port config) cmd 0 n None []")
    have "r \<in> set sent"
      using r g Returned l by (simp add: ExecuteCommand_def split: option.splits)
    then have "r \<in> set (snd (sendLoop net (Host config) (Port config) cmd 0 n None []))"
      using l by simp
    then have "r = postedRequest (Host config) (Port config) cmd"
      using sendLoop_bodies by fastforce
    with Returned g show ?thesis by simp
  qed
qed

theorem request_envelope_witness:
  "createJsonCommand ''home'' []
     = Returned [(''jsonrpc'', JString ''2.0''), (''method'', JString ''Input.Home''), (''id'', JNumber 1)]
   \<and> (\<exists>c p. CommandMap ''home'' = Some c \<and> CreateParameterMap c [] = Returned p
         \<and> map_of [(''jsonrpc'', JString ''2.0''), (''method'', JString ''Input.Home''), (''id'', JNumber 1)]
              ''method'' = Some (JString (KodiName c))
         \<and> map_of [(''jsonrpc'', JString ''2.0''), (''method'', JString ''Input.Home''), (''id'', JNumber 1)]
              ''params'' = (if p = Map.empty then None else Some (JObject p)))
   \<and> snd (ExecuteCommand (\<lambda>i. Body successBody) \<lparr>Host = ''kodi'', Port = ''8080''\<rparr> ''home'' [])
       = [postedRequest ''kodi'' ''8080''
            [(''jsonrpc'', JString ''2.0''), (''method'', JString ''Input.Home''), (''id'', JNumber 1)]]
   \<and> (\<exists>cmd. createJsonCommand ''home'' (snd (getRepeatCount ''home'' [])) = Returned cmd
         \<and> postedRequest ''kodi'' ''8080''
              [(''jsonrpc'', JString ''2.0''), (''method'', JString ''Input.Home''), (''id'', JNumber 1)]
            = postedRequest ''kodi'' ''8080'' cmd)
   \<and> createJsonCommand ''mute'' []
     = Returned [(''jsonrpc'', JString ''2.0''), (''method'', JString ''Application.SetMute''),
                 (''params'', JObject [''mute'' \<mapsto> StrVal ''toggle'']), (''id'', JNumber 1)]
   \<and> (\<exists>c p. CommandMap ''mute'' = Some c \<and> CreateParameterMap c [] = Returned p
         \<and> map fst [(''jsonrpc'', JString ''2.0''), (''method'', JString ''Application.SetMute''),
                     (''params'', JObject [''mute'' \<mapsto> StrVal ''toggle'']), (''id'', JNumber 1)]
            = (if p = Map.empty then [''jsonrpc'', ''method'', ''id'']
               else [''jsonrpc'', ''method'', ''params'', ''id'']))"
proof -
  let ?js = "[(''jsonrpc'', JString ''2.0''), (''method'', JString ''Input.Home''), (''id'', JNumber 1)]"
  let ?mute = "[(''jsonrpc'', JString ''2.0''), (''method'', JString ''Application.SetMute''),
                (''params'', JObject [''mute'' \<mapsto> StrVal ''toggle'']), (''id'', JNumber 1)]"
  let ?net = "\<lambda>i::nat. Body successBody"
  let ?cfg = "\<lparr>Host = ''kodi'', Port = ''8080''\<rparr>"
  note t = request_envelope [of "''home''" "[]" ?js ?net ?cfg]
  have c: "createJsonCommand ''home'' [] = Returned ?js"
    by (simp add: createJsonCommand_def mapIndex_def CommandMap_def CommandTable_def mkCommand_def
        noParameterMap_def SetValues_def zeroCommandRequest_def Marshal_def)
  have g: "getRepeatCount ''home'' [] = (1, [])"
    by (simp add: getRepeatCount_def)
  have r: "reachable ?net" by (simp add: reachable_def)
  have s: "snd (ExecuteCommand ?net ?cfg ''home'' []) = [postedRequest ''kodi'' ''8080'' ?js]"
    using ExecuteCommand_sent [of ?net "''home''" "[]" ?js ?cfg] r c by (simp add: g)
  then have m: "postedRequest ''kodi'' ''8080'' ?js \<in> set (snd (ExecuteCommand ?net ?cfg ''home'' []))"
    by simp
  have 1: "\<exists>c p. CommandMap ''home'' = Some c \<and> CreateParameterMap c [] = Returned p
         \<and> map_of ?js ''method'' = Some (JString (KodiName c))
         \<and> map_of ?js ''params'' = (if p = Map.empty then None else Some (JObject p))"
    using t c by blast
  have 2: "\<exists>cmd. createJsonCommand ''home'' (snd (getRepeatCount ''home'' [])) = Returned cmd
         \<and> postedRequest ''kodi'' ''8080'' ?js = postedRequest ''kodi'' ''8080'' cmd"
    using t m by fastforce
  have cm: "createJsonCommand ''mute'' [] = Returned ?mute"
    by (simp add: createJsonCommand_def mapIndex_def CommandMap_def CommandTable_def mkCommand_def
        muteParameterMap_def SetValues_def zeroCommandRequest_def Marshal_def)
  have 3: "\<exists>c p. CommandMap ''mute'' = Some c \<and> CreateParameterMap c [] = Returned p
         \<and> map fst ?mute = (if p = Map.empty then [''jsonrpc'', ''method'', ''id'']
                             else [''jsonrpc'', ''method'', ''params'', ''id''])"
    using request_envelope [of "''mute''" "[]" ?mute] cm by blast
  show ?thesis using c 1 s 2 cm 3 by blast
qed

end
